theory Spec2Isabelle
  imports Main "HOL-Library.Multiset" "HOL-Library.Char_ord" "HOL-Library.List_Lexorder"
begin

section \<open>Values of the structured descriptions\<close>

text \<open>
  The functions of \<^verbatim>\<open>arcpyext/mapping/_mapping.py\<close> work on plain nested Python data:
  a description is a dict from field names to \<^verbatim>\<open>None\<close>, booleans, integers, strings,
  lists and further dicts.  A dict is an association list in insertion order; Python
  keeps its keys unique.  Strings are byte strings (UTF-8), so their lexicographic order
  is Python's order by code point.  Floats are not modelled.
\<close>

datatype pyval =
    PNone
  | PBool bool
  | PInt int
  | PStr string
  | PList "pyval list"
  | PDict "(string \<times> pyval) list"

type_synonym pydict = "(string \<times> pyval) list"

text \<open>A layer or table description is a dict.\<close>

type_synonym layer = pydict

text \<open>The exceptions the modelled code can raise.\<close>

datatype error = KeyError | TypeError | AttributeError | RuntimeError

text \<open>
  Python's \<^verbatim>\<open>==\<close> on these values.  A boolean is an integer (\<^verbatim>\<open>True == 1\<close>), lists
  are compared element by element, dicts by length and then key by key.
\<close>

fun num_of :: "pyval \<Rightarrow> int option" where
  "num_of (PBool b) = Some (if b then 1 else 0)"
| "num_of (PInt i) = Some i"
| "num_of _ = None"

fun py_eq :: "pyval \<Rightarrow> pyval \<Rightarrow> bool"
  and py_eq_list :: "pyval list \<Rightarrow> pyval list \<Rightarrow> bool"
  and py_eq_items :: "(string \<times> pyval) list \<Rightarrow> (string \<times> pyval) list \<Rightarrow> bool"
  and py_eq_lookup :: "string \<Rightarrow> pyval \<Rightarrow> (string \<times> pyval) list \<Rightarrow> bool"
where
  "py_eq PNone b = (b = PNone)"
| "py_eq (PBool x) b = (num_of b = Some (if x then 1 else 0))"
| "py_eq (PInt i) b = (num_of b = Some i)"
| "py_eq (PStr s) b = (b = PStr s)"
| "py_eq (PList xs) b = (case b of PList ys \<Rightarrow> py_eq_list xs ys | _ \<Rightarrow> False)"
| "py_eq (PDict d) b =
     (case b of PDict e \<Rightarrow> length d = length e \<and> py_eq_items d e | _ \<Rightarrow> False)"
| "py_eq_list [] ys = (ys = [])"
| "py_eq_list (x # xs) ys =
     (case ys of [] \<Rightarrow> False | y # ys' \<Rightarrow> py_eq x y \<and> py_eq_list xs ys')"
| "py_eq_items [] e = True"
| "py_eq_items ((k, v) # d) e = (py_eq_lookup k v e \<and> py_eq_items d e)"
| "py_eq_lookup k v [] = False"
| "py_eq_lookup k v ((k', w) # e) = (if k = k' then py_eq v w else py_eq_lookup k v e)"

text \<open>\<^verbatim>\<open>d[k]\<close> raises \<^verbatim>\<open>KeyError\<close> on a missing key; \<^verbatim>\<open>k in d\<close> is \<open>map_of d k \<noteq> None\<close>.\<close>

definition getitem :: "pydict \<Rightarrow> string \<Rightarrow> error + pyval" where
  "getitem d k = (case map_of d k of None \<Rightarrow> Inl KeyError | Some v \<Rightarrow> Inr v)"

text \<open>Only immutable values can be keys of a dict or members of a set.\<close>

fun hashable :: "pyval \<Rightarrow> bool" where
  "hashable (PList _) = False"
| "hashable (PDict _) = False"
| "hashable _ = True"

section \<open>Layer reconciliation: \<^verbatim>\<open>_match_layers\<close>\<close>

text \<open>
  \<^verbatim>\<open>_attr_shallow_eq(a, b, attr_key)\<close>:
  \<^verbatim>\<open>b[attr_key] == a[attr_key] if attr_key in a and attr_key in b else False\<close>.
\<close>

definition attr_shallow_eq :: "pydict \<Rightarrow> pydict \<Rightarrow> string \<Rightarrow> bool" where
  "attr_shallow_eq a b attr_key =
     (case map_of a attr_key of
        None \<Rightarrow> False
      | Some va \<Rightarrow> (case map_of b attr_key of None \<Rightarrow> False | Some vb \<Rightarrow> py_eq vb va))"

definition same_id :: "layer \<Rightarrow> layer \<Rightarrow> bool" where
  "same_id a b = attr_shallow_eq a b ''serviceId''"

definition same_name :: "layer \<Rightarrow> layer \<Rightarrow> bool" where
  "same_name a b = attr_shallow_eq a b ''name''"

text \<open>
  \<^verbatim>\<open>resolved_was\<close> and \<^verbatim>\<open>resolved_now\<close> are dicts from a layer's index to the layer it
  was paired with, or to \<^verbatim>\<open>None\<close>.  Keys are found by \<^verbatim>\<open>==\<close>; storing under a key
  that is present overwrites its value.
\<close>

type_synonym resolved = "(pyval \<times> layer option) list"

fun resolved_has :: "resolved \<Rightarrow> pyval \<Rightarrow> bool" where
  "resolved_has [] k = False"
| "resolved_has ((k', v) # r) k = (py_eq k' k \<or> resolved_has r k)"

fun resolved_get :: "resolved \<Rightarrow> pyval \<Rightarrow> error + layer option" where
  "resolved_get [] k = Inl KeyError"
| "resolved_get ((k', v) # r) k = (if py_eq k' k then Inr v else resolved_get r k)"

fun resolved_set :: "resolved \<Rightarrow> pyval \<Rightarrow> layer option \<Rightarrow> resolved" where
  "resolved_set [] k v = [(k, v)]"
| "resolved_set ((k', v') # r) k v =
     (if py_eq k' k then (k', v) # r else (k', v') # resolved_set r k v)"

text \<open>
  \<^verbatim>\<open>x['index']\<close> used as a key: \<^verbatim>\<open>KeyError\<close> when the layer has no index,
  \<^verbatim>\<open>TypeError\<close> when the index cannot be hashed.
\<close>

definition index_key :: "layer \<Rightarrow> error + pyval" where
  "index_key x =
     (case map_of x ''index'' of
        None \<Rightarrow> Inl KeyError
      | Some i \<Rightarrow> if hashable i then Inr i else Inl TypeError)"

text \<open>\<^verbatim>\<open>is_resolved_was = lambda x: x['index'] in resolved_was\<close>, and the same for now.\<close>

definition is_resolved :: "resolved \<Rightarrow> layer \<Rightarrow> error + bool" where
  "is_resolved r x = (case index_key x of Inl e \<Rightarrow> Inl e | Inr i \<Rightarrow> Inr (resolved_has r i))"

text \<open>
  \<^verbatim>\<open>not is_resolved_was(a) and not is_resolved_now(b)\<close>, evaluated left to right: the
  second index is read only when the first layer is unresolved.
\<close>

definition both_unresolved :: "resolved \<Rightarrow> resolved \<Rightarrow> layer \<Rightarrow> layer \<Rightarrow> error + bool" where
  "both_unresolved rw rn a b =
     (case is_resolved rw a of
        Inl e \<Rightarrow> Inl e
      | Inr ra \<Rightarrow>
          if ra then Inr False
          else (case is_resolved rn b of Inl e \<Rightarrow> Inl e | Inr rb \<Rightarrow> Inr (\<not> rb)))"

text \<open>
  The six specificity tests, in the order of the list \<^verbatim>\<open>tests\<close>.  Each \<^verbatim>\<open>fn\<close> returns
  \<^verbatim>\<open>b\<close> or \<^verbatim>\<open>None\<close>; the model returns whether the result is not \<^verbatim>\<open>None\<close>.  The
  first test has no \<^verbatim>\<open>is_resolved\<close> condition in the source.  \<^verbatim>\<open>same_datasource\<close> calls
  \<^verbatim>\<open>dictionaries_eq_ignore_case\<close> and \<^verbatim>\<open>get_datasource_info\<close> of the module
  \<^verbatim>\<open>compare_types\<close>, which is not among the sources: it is the parameter \<open>sd\<close>.
\<close>

definition tests ::
  "(layer \<Rightarrow> layer \<Rightarrow> bool) \<Rightarrow> resolved \<Rightarrow> resolved \<Rightarrow> (layer \<Rightarrow> layer \<Rightarrow> error + bool) list"
where
  "tests sd rw rn =
     [ \<lambda>a b. Inr (same_id a b \<and> same_name a b \<and> sd a b),
       \<lambda>a b. if same_id a b \<and> same_name a b then both_unresolved rw rn a b else Inr False,
       \<lambda>a b. if same_id a b \<and> sd a b then both_unresolved rw rn a b else Inr False,
       \<lambda>a b. if same_id a b then both_unresolved rw rn a b else Inr False,
       \<lambda>a b. if same_name a b \<and> sd a b then both_unresolved rw rn a b else Inr False,
       \<lambda>a b. if same_name a b then both_unresolved rw rn a b else Inr False ]"

text \<open>\<^verbatim>\<open>test_if_matching_layer\<close>: the first test that matches answers \<^verbatim>\<open>True\<close>.\<close>

fun run_tests :: "(layer \<Rightarrow> layer \<Rightarrow> error + bool) list \<Rightarrow> layer \<Rightarrow> layer \<Rightarrow> error + bool" where
  "run_tests [] a b = Inr False"
| "run_tests (t # ts) a b =
     (case t a b of
        Inl e \<Rightarrow> Inl e
      | Inr m \<Rightarrow> if m then Inr True else run_tests ts a b)"

definition test_if_matching_layer ::
  "(layer \<Rightarrow> layer \<Rightarrow> bool) \<Rightarrow> resolved \<Rightarrow> resolved \<Rightarrow> layer \<Rightarrow> layer \<Rightarrow> error + bool"
where
  "test_if_matching_layer sd rw rn was_layer now_layer =
     run_tests (tests sd rw rn) was_layer now_layer"

text \<open>
  The inner loop \<^verbatim>\<open>for was_layer in was_layers\<close>: the first old layer, in list order,
  that passes \<^verbatim>\<open>test_if_matching_layer\<close>; the loop breaks there.
\<close>

fun find_was ::
  "(layer \<Rightarrow> layer \<Rightarrow> bool) \<Rightarrow> resolved \<Rightarrow> resolved \<Rightarrow> layer list \<Rightarrow> layer \<Rightarrow> error + layer option"
where
  "find_was sd rw rn [] now_layer = Inr None"
| "find_was sd rw rn (was_layer # rest) now_layer =
     (case test_if_matching_layer sd rw rn was_layer now_layer of
        Inl e \<Rightarrow> Inl e
      | Inr found \<Rightarrow> if found then Inr (Some was_layer) else find_was sd rw rn rest now_layer)"

record match_state =
  added :: "layer list"
  resolved_was :: resolved
  resolved_now :: resolved

text \<open>One round of the outer loop \<^verbatim>\<open>for now_layer in now_layers\<close>.\<close>

definition match_now ::
  "(layer \<Rightarrow> layer \<Rightarrow> bool) \<Rightarrow> layer list \<Rightarrow> match_state \<Rightarrow> layer \<Rightarrow> error + match_state"
where
  "match_now sd was_layers s now_layer =
     (case find_was sd (resolved_was s) (resolved_now s) was_layers now_layer of
        Inl e \<Rightarrow> Inl e
      | Inr None \<Rightarrow>
          (case index_key now_layer of
             Inl e \<Rightarrow> Inl e
           | Inr j \<Rightarrow>
               Inr (s\<lparr>resolved_now := resolved_set (resolved_now s) j None,
                      added := added s @ [now_layer]\<rparr>))
      | Inr (Some was_layer) \<Rightarrow>
          (case index_key was_layer of
             Inl e \<Rightarrow> Inl e
           | Inr i \<Rightarrow>
               (case index_key now_layer of
                  Inl e \<Rightarrow> Inl e
                | Inr j \<Rightarrow>
                    Inr (s\<lparr>resolved_was := resolved_set (resolved_was s) i (Some now_layer),
                           resolved_now := resolved_set (resolved_now s) j (Some was_layer)\<rparr>))))"

fun match_loop ::
  "(layer \<Rightarrow> layer \<Rightarrow> bool) \<Rightarrow> layer list \<Rightarrow> match_state \<Rightarrow> layer list \<Rightarrow> error + match_state"
where
  "match_loop sd was_layers s [] = Inr s"
| "match_loop sd was_layers s (now_layer # rest) =
     (case match_now sd was_layers s now_layer of
        Inl e \<Rightarrow> Inl e
      | Inr s' \<Rightarrow> match_loop sd was_layers s' rest)"

text \<open>
  The loop \<^verbatim>\<open># Removed layers\<close>: an old layer whose index is not in \<^verbatim>\<open>resolved_was\<close>
  is stored there with \<^verbatim>\<open>None\<close> and appended to \<^verbatim>\<open>removed\<close>.
\<close>

fun removed_loop :: "resolved \<Rightarrow> layer list \<Rightarrow> error + (resolved \<times> layer list)" where
  "removed_loop rw [] = Inr (rw, [])"
| "removed_loop rw (was_layer # rest) =
     (case index_key was_layer of
        Inl e \<Rightarrow> Inl e
      | Inr i \<Rightarrow>
          if resolved_has rw i then removed_loop rw rest
          else (case removed_loop (resolved_set rw i None) rest of
                  Inl e \<Rightarrow> Inl e
                | Inr (rw', removed) \<Rightarrow> Inr (rw', was_layer # removed)))"

text \<open>
  The last loop: \<^verbatim>\<open>resolved_layer = resolved_was[was_layer["index"]]\<close>, and the pair is
  appended \<^verbatim>\<open>if resolved_layer\<close>, that is when it is neither \<^verbatim>\<open>None\<close> nor an empty dict.
\<close>

fun matched_loop :: "resolved \<Rightarrow> layer list \<Rightarrow> error + (layer \<times> layer) list" where
  "matched_loop rw [] = Inr []"
| "matched_loop rw (was_layer # rest) =
     (case index_key was_layer of
        Inl e \<Rightarrow> Inl e
      | Inr i \<Rightarrow>
          (case resolved_get rw i of
             Inl e \<Rightarrow> Inl e
           | Inr resolved_layer \<Rightarrow>
               (case matched_loop rw rest of
                  Inl e \<Rightarrow> Inl e
                | Inr matched \<Rightarrow>
                    (case resolved_layer of
                       None \<Rightarrow> Inr matched
                     | Some l \<Rightarrow> if l = [] then Inr matched else Inr ((was_layer, l) # matched)))))"

text \<open>\<^verbatim>\<open>_match_layers(was_layers, now_layers)\<close> returns \<^verbatim>\<open>(added, matched, removed)\<close>.\<close>

definition match_layers ::
  "(layer \<Rightarrow> layer \<Rightarrow> bool) \<Rightarrow> layer list \<Rightarrow> layer list
     \<Rightarrow> error + (layer list \<times> (layer \<times> layer) list \<times> layer list)"
where
  "match_layers sd was_layers now_layers =
     (case match_loop sd was_layers \<lparr>added = [], resolved_was = [], resolved_now = []\<rparr> now_layers of
        Inl e \<Rightarrow> Inl e
      | Inr s \<Rightarrow>
          (case removed_loop (resolved_was s) was_layers of
             Inl e \<Rightarrow> Inl e
           | Inr (rw, removed) \<Rightarrow>
               (case matched_loop rw was_layers of
                  Inl e \<Rightarrow> Inl e
                | Inr matched \<Rightarrow> Inr (added s, matched, removed))))"

section \<open>Canonical forms: \<^verbatim>\<open>_recursive_sort\<close>\<close>

text \<open>
  \<^verbatim>\<open>_recursive_sort\<close> turns a dict into the sorted list of its \<^verbatim>\<open>(key, value)\<close> tuples and
  a list into a sorted list; every other value is returned as it is.  Its results are
  the values of the type \<open>canon\<close>: a tuple \<^verbatim>\<open>(k, v)\<close> is \<open>CPair k v\<close>.
\<close>

datatype canon =
    CNone
  | CBool bool
  | CInt int
  | CStr string
  | CList "canon list"
  | CPair string canon

fun cnum_of :: "canon \<Rightarrow> int option" where
  "cnum_of (CBool b) = Some (if b then 1 else 0)"
| "cnum_of (CInt i) = Some i"
| "cnum_of _ = None"

text \<open>Python's \<^verbatim>\<open>==\<close> on canonical forms.\<close>

fun ceq :: "canon \<Rightarrow> canon \<Rightarrow> bool"
  and ceq_list :: "canon list \<Rightarrow> canon list \<Rightarrow> bool"
where
  "ceq CNone b = (b = CNone)"
| "ceq (CBool x) b = (cnum_of b = Some (if x then 1 else 0))"
| "ceq (CInt i) b = (cnum_of b = Some i)"
| "ceq (CStr s) b = (b = CStr s)"
| "ceq (CList xs) b = (case b of CList ys \<Rightarrow> ceq_list xs ys | _ \<Rightarrow> False)"
| "ceq (CPair k v) b = (case b of CPair k' w \<Rightarrow> k = k' \<and> ceq v w | _ \<Rightarrow> False)"
| "ceq_list [] ys = (ys = [])"
| "ceq_list (x # xs) ys =
     (case ys of [] \<Rightarrow> False | y # ys' \<Rightarrow> ceq x y \<and> ceq_list xs ys')"

text \<open>
  Python 3's \<^verbatim>\<open>&lt;\<close> on canonical forms.  Numbers (booleans included) are ordered among
  themselves, strings by code point, lists and tuples lexicographically: the first
  position where the two sides are not \<^verbatim>\<open>==\<close> decides, and a proper prefix is smaller.
  \<^verbatim>\<open>None\<close>, and two values of different kinds, are not ordered: \<^verbatim>\<open>TypeError\<close>.
\<close>

fun clt :: "canon \<Rightarrow> canon \<Rightarrow> error + bool"
  and clt_list :: "canon list \<Rightarrow> canon list \<Rightarrow> error + bool"
where
  "clt CNone b = Inl TypeError"
| "clt (CBool x) b =
     (case cnum_of b of None \<Rightarrow> Inl TypeError | Some j \<Rightarrow> Inr ((if x then 1 else 0) < j))"
| "clt (CInt i) b = (case cnum_of b of None \<Rightarrow> Inl TypeError | Some j \<Rightarrow> Inr (i < j))"
| "clt (CStr s) b = (case b of CStr t \<Rightarrow> Inr (s < t) | _ \<Rightarrow> Inl TypeError)"
| "clt (CList xs) b = (case b of CList ys \<Rightarrow> clt_list xs ys | _ \<Rightarrow> Inl TypeError)"
| "clt (CPair k v) b =
     (case b of
        CPair k' w \<Rightarrow>
          if k = k' then (if ceq v w then Inr False else clt v w) else Inr (k < k')
      | _ \<Rightarrow> Inl TypeError)"
| "clt_list [] ys = Inr (ys \<noteq> [])"
| "clt_list (x # xs) ys =
     (case ys of
        [] \<Rightarrow> Inr False
      | y # ys' \<Rightarrow> if ceq x y then clt_list xs ys' else clt x y)"

text \<open>
  Python's \<^verbatim>\<open>sorted\<close> is a stable sort by \<^verbatim>\<open>&lt;\<close>.  It raises \<^verbatim>\<open>TypeError\<close> when it
  compares two elements that \<^verbatim>\<open>&lt;\<close> does not order.  The model raises \<^verbatim>\<open>TypeError\<close> when
  the list holds two such elements at different positions, and returns the stable
  insertion sort otherwise.
\<close>

definition lt :: "canon \<Rightarrow> canon \<Rightarrow> bool" where
  "lt a b = (clt a b = Inr True)"

definition orderable :: "canon \<Rightarrow> canon \<Rightarrow> bool" where
  "orderable a b = (\<not> isl (clt a b) \<and> \<not> isl (clt b a))"

fun all_orderable :: "canon list \<Rightarrow> bool" where
  "all_orderable [] = True"
| "all_orderable (x # xs) = (list_all (orderable x) xs \<and> all_orderable xs)"

fun insort_lt :: "canon \<Rightarrow> canon list \<Rightarrow> canon list" where
  "insort_lt x [] = [x]"
| "insort_lt x (y # ys) = (if lt y x then y # insort_lt x ys else x # y # ys)"

definition py_sorted :: "canon list \<Rightarrow> error + canon list" where
  "py_sorted xs = (if all_orderable xs then Inr (foldr insort_lt xs []) else Inl TypeError)"

fun recursive_sort :: "pyval \<Rightarrow> error + canon"
  and recursive_sort_list :: "pyval list \<Rightarrow> error + canon list"
  and recursive_sort_items :: "(string \<times> pyval) list \<Rightarrow> error + canon list"
where
  "recursive_sort (PDict d) =
     (case recursive_sort_items d of
        Inl e \<Rightarrow> Inl e
      | Inr cs \<Rightarrow> (case py_sorted cs of Inl e \<Rightarrow> Inl e | Inr s \<Rightarrow> Inr (CList s)))"
| "recursive_sort (PList xs) =
     (case recursive_sort_list xs of
        Inl e \<Rightarrow> Inl e
      | Inr cs \<Rightarrow> (case py_sorted cs of Inl e \<Rightarrow> Inl e | Inr s \<Rightarrow> Inr (CList s)))"
| "recursive_sort PNone = Inr CNone"
| "recursive_sort (PBool b) = Inr (CBool b)"
| "recursive_sort (PInt i) = Inr (CInt i)"
| "recursive_sort (PStr s) = Inr (CStr s)"
| "recursive_sort_list [] = Inr []"
| "recursive_sort_list (x # xs) =
     (case recursive_sort x of
        Inl e \<Rightarrow> Inl e
      | Inr c \<Rightarrow> (case recursive_sort_list xs of Inl e \<Rightarrow> Inl e | Inr cs \<Rightarrow> Inr (c # cs)))"
| "recursive_sort_items [] = Inr []"
| "recursive_sort_items ((k, v) # d) =
     (case recursive_sort v of
        Inl e \<Rightarrow> Inl e
      | Inr c \<Rightarrow>
          (case recursive_sort_items d of Inl e \<Rightarrow> Inl e | Inr cs \<Rightarrow> Inr (CPair k c # cs)))"

text \<open>
  The canonical-form equality \<^verbatim>\<open>_recursive_sort(a) == _recursive_sort(b)\<close>, and
  \<^verbatim>\<open>_attr_deep_eq(a, b, attr_key)\<close>, which applies it to a field that both dicts have.
\<close>

definition deep_eq :: "pyval \<Rightarrow> pyval \<Rightarrow> error + bool" where
  "deep_eq a b =
     (case recursive_sort a of
        Inl e \<Rightarrow> Inl e
      | Inr ca \<Rightarrow> (case recursive_sort b of Inl e \<Rightarrow> Inl e | Inr cb \<Rightarrow> Inr (ceq ca cb)))"

definition attr_deep_eq :: "pydict \<Rightarrow> pydict \<Rightarrow> string \<Rightarrow> error + bool" where
  "attr_deep_eq a b attr_key =
     (case map_of a attr_key of
        None \<Rightarrow> Inr False
      | Some va \<Rightarrow> (case map_of b attr_key of None \<Rightarrow> Inr False | Some vb \<Rightarrow> deep_eq va vb))"

section \<open>Collaborators that are not among the sources\<close>

text \<open>
  Python's \<^verbatim>\<open>str.lower\<close> on ASCII text: the letters \<^verbatim>\<open>A\<close> to \<^verbatim>\<open>Z\<close> are lowered and every
  other byte is left as it is.  \<^verbatim>\<open>str.lower\<close> also lowers letters outside ASCII, which
  the byte strings of the model do not tell apart: the model covers field names and
  values written in ASCII.
\<close>

definition lower_char :: "char \<Rightarrow> char" where
  "lower_char c =
     (case map_of (zip ''ABCDEFGHIJKLMNOPQRSTUVWXYZ'' ''abcdefghijklmnopqrstuvwxyz'') c of
        None \<Rightarrow> c
      | Some l \<Rightarrow> l)"

definition lower :: "string \<Rightarrow> string" where
  "lower s = map lower_char s"

text \<open>\<^verbatim>\<open>d[k] = v\<close> on a dict: an old key keeps its place, a new key goes last.\<close>

fun dict_set :: "pydict \<Rightarrow> string \<Rightarrow> pyval \<Rightarrow> pydict" where
  "dict_set [] k v = [(k, v)]"
| "dict_set ((k', v') # d) k v =
     (if k' = k then (k', v) # d else (k', v') # dict_set d k v)"

text \<open>
  Modelled from the spec: \<^verbatim>\<open>lowercase_dict\<close> of the module \<^verbatim>\<open>_compare_helpers\<close>, which is
  not among the sources.  The spec (4.1): for mappings, keys and then values are
  case-lowered recursively; a new mapping is returned; lowercasing applies to string keys
  and string values but not to non-string leaf values.
\<close>

fun lowercase_val :: "pyval \<Rightarrow> pyval"
  and lowercase_items :: "(string \<times> pyval) list \<Rightarrow> pydict \<Rightarrow> pydict"
where
  "lowercase_val (PStr s) = PStr (lower s)"
| "lowercase_val (PDict d) = PDict (lowercase_items d [])"
| "lowercase_val v = v"
| "lowercase_items [] acc = acc"
| "lowercase_items ((k, v) # d) acc =
     lowercase_items d (dict_set acc (lower k) (lowercase_val v))"

definition lowercase_dict :: "pydict \<Rightarrow> pydict" where
  "lowercase_dict d = lowercase_items d []"

text \<open>
  Modelled from the spec: \<^verbatim>\<open>same_datasource\<close>, that is \<^verbatim>\<open>dictionaries_eq_ignore_case\<close>
  applied to \<^verbatim>\<open>get_datasource_info\<close> of both layers (module \<^verbatim>\<open>compare_types\<close>, not among
  the sources).  The spec (4.3, 7): the test holds for identical data sources, compared
  without regard to case, and a layer without a data source gives no match.
\<close>

definition same_datasource :: "layer \<Rightarrow> layer \<Rightarrow> bool" where
  "same_datasource a b =
     (case map_of a ''dataSource'' of
        Some (PDict x) \<Rightarrow>
          (case map_of b ''dataSource'' of
             Some (PDict y) \<Rightarrow> py_eq (PDict (lowercase_dict x)) (PDict (lowercase_dict y))
           | _ \<Rightarrow> False)
      | _ \<Rightarrow> False)"

section \<open>Frame and map comparison: \<^verbatim>\<open>_compare_map_frames\<close> and \<^verbatim>\<open>compare\<close>\<close>

text \<open>
  \<^verbatim>\<open>for x in v\<close>: the elements of a list, the characters of a string, the keys of a
  dict; any other value is not iterable.
\<close>

definition iterate :: "pyval \<Rightarrow> error + pyval list" where
  "iterate v =
     (case v of
        PList xs \<Rightarrow> Inr xs
      | PStr s \<Rightarrow> Inr (map (\<lambda>c. PStr [c]) s)
      | PDict d \<Rightarrow> Inr (map (\<lambda>kv. PStr (fst kv)) d)
      | _ \<Rightarrow> Inl TypeError)"

text \<open>
  \<^verbatim>\<open>v[k]\<close> with a string \<open>k\<close>: the entry of a dict, \<^verbatim>\<open>KeyError\<close> when the dict has no such
  key, and \<^verbatim>\<open>TypeError\<close> for \<^verbatim>\<open>None\<close> and every other value that is not a dict.
\<close>

definition subscript :: "pyval \<Rightarrow> string \<Rightarrow> error + pyval" where
  "subscript v k = (case v of PDict d \<Rightarrow> getitem d k | _ \<Rightarrow> Inl TypeError)"

text \<open>
  \<^verbatim>\<open>_match_layers\<close> iterates the two values it is given and subscripts every layer.  The
  layers of a frame are dicts; for an element that is not a dict the subscript raises
  \<^verbatim>\<open>TypeError\<close>, which the model raises when the elements are read.
\<close>

fun as_dicts :: "pyval list \<Rightarrow> error + pydict list" where
  "as_dicts [] = Inr []"
| "as_dicts (PDict d # xs) =
     (case as_dicts xs of Inl e \<Rightarrow> Inl e | Inr ds \<Rightarrow> Inr (d # ds))"
| "as_dicts (x # xs) = Inl TypeError"

definition layers_of :: "pyval \<Rightarrow> error + layer list" where
  "layers_of v = (case iterate v of Inl e \<Rightarrow> Inl e | Inr xs \<Rightarrow> as_dicts xs)"

text \<open>
  The result of \<^verbatim>\<open>_compare_map_frames\<close>: the dict
  \<^verbatim>\<open>{"diff": [], "layers": {"added": [], "updated": [], "removed": []}, "tables": []}\<close>.
\<close>

record frame_diff =
  frame_changes :: "pyval list"
  layers_added :: "layer list"
  layers_updated :: "layer list"
  layers_removed :: "layer list"
  frame_tables :: "pyval list"

definition empty_frame_diff :: frame_diff where
  "empty_frame_diff =
     \<lparr>frame_changes = [], layers_added = [], layers_updated = [], layers_removed = [],
      frame_tables = []\<rparr>"

text \<open>
  The loop over the matched pairs: the new layer is copied, the copy gets the field
  \<^verbatim>\<open>"diff"\<close>, and it is appended to \<^verbatim>\<open>updated\<close> when the diff is not empty.
  \<^verbatim>\<open>LayerChangeTypes.compare\<close> is the parameter \<open>layer_compare\<close>.
\<close>

fun updated_loop ::
  "(layer \<Rightarrow> layer \<Rightarrow> error + pyval list) \<Rightarrow> (layer \<times> layer) list \<Rightarrow> error + layer list"
where
  "updated_loop layer_compare [] = Inr []"
| "updated_loop layer_compare ((was_layer, now_layer) # rest) =
     (case layer_compare was_layer now_layer of
        Inl e \<Rightarrow> Inl e
      | Inr diff \<Rightarrow>
          (case updated_loop layer_compare rest of
             Inl e \<Rightarrow> Inl e
           | Inr updated \<Rightarrow>
               if length diff > 0
               then Inr (dict_set now_layer ''diff'' (PList diff) # updated)
               else Inr updated))"

text \<open>
  \<^verbatim>\<open>_compare_map_frames(was_map_desc, now_map_desc)\<close>.  Only an absent old frame is
  checked for; with an absent new frame, \<^verbatim>\<open>now_map_desc["layers"]\<close> subscripts \<^verbatim>\<open>None\<close>,
  which raises \<^verbatim>\<open>TypeError\<close>.  \<^verbatim>\<open>MapChangeTypes.compare\<close> (module \<^verbatim>\<open>compare_types\<close>, not among
  the sources) is the parameter \<open>map_compare\<close>.
\<close>

definition compare_map_frames ::
  "(pyval \<Rightarrow> pyval \<Rightarrow> error + pyval list) \<Rightarrow> (layer \<Rightarrow> layer \<Rightarrow> error + pyval list)
     \<Rightarrow> (layer \<Rightarrow> layer \<Rightarrow> bool) \<Rightarrow> pyval \<Rightarrow> pyval \<Rightarrow> error + frame_diff"
where
  "compare_map_frames map_compare layer_compare sd was_map_desc now_map_desc =
     (if was_map_desc = PNone then Inr empty_frame_diff
      else
        (case map_compare was_map_desc now_map_desc of
           Inl e \<Rightarrow> Inl e
         | Inr changes \<Rightarrow>
             (case subscript was_map_desc ''layers'' of
                Inl e \<Rightarrow> Inl e
              | Inr was_value \<Rightarrow>
                  (case subscript now_map_desc ''layers'' of
                     Inl e \<Rightarrow> Inl e
                   | Inr now_value \<Rightarrow>
                       (case layers_of now_value of
                          Inl e \<Rightarrow> Inl e
                        | Inr now_layers \<Rightarrow>
                            (case layers_of was_value of
                               Inl e \<Rightarrow> Inl e
                             | Inr was_layers \<Rightarrow>
                                 (case match_layers sd was_layers now_layers of
                                    Inl e \<Rightarrow> Inl e
                                  | Inr (new_layers, matched, old_layers) \<Rightarrow>
                                      (case updated_loop layer_compare matched of
                                         Inl e \<Rightarrow> Inl e
                                       | Inr updated \<Rightarrow>
                                           Inr \<lparr>frame_changes = changes,
                                                layers_added = new_layers,
                                                layers_updated = updated,
                                                layers_removed = old_layers,
                                                frame_tables = []\<rparr>))))))))"

text \<open>\<^verbatim>\<open>itertools.zip_longest\<close> on two lists, filling the shorter side with \<^verbatim>\<open>None\<close>.\<close>

fun zip_longest :: "pyval list \<Rightarrow> pyval list \<Rightarrow> (pyval \<times> pyval) list" where
  "zip_longest [] [] = []"
| "zip_longest (x # xs) [] = (x, PNone) # zip_longest xs []"
| "zip_longest [] (y # ys) = (PNone, y) # zip_longest [] ys"
| "zip_longest (x # xs) (y # ys) = (x, y) # zip_longest xs ys"

text \<open>A list comprehension over a function that may raise: the first error ends it.\<close>

fun map_err :: "('a \<Rightarrow> error + 'b) \<Rightarrow> 'a list \<Rightarrow> error + 'b list" where
  "map_err f [] = Inr []"
| "map_err f (x # xs) =
     (case f x of
        Inl e \<Rightarrow> Inl e
      | Inr y \<Rightarrow> (case map_err f xs of Inl e \<Rightarrow> Inl e | Inr ys \<Rightarrow> Inr (y # ys)))"

record map_diff =
  map_changes :: "pyval list"
  map_frames :: "frame_diff list"

text \<open>
  \<^verbatim>\<open>compare(was_mxd_proj_or_desc, now_mxd_proj_or_desc)\<close> on two descriptions (a mapping is
  used as it is; \<^verbatim>\<open>describe\<close> is not called).  \<^verbatim>\<open>DocumentChangeTypes.compare\<close> (module
  \<^verbatim>\<open>compare_types\<close>) is the parameter \<open>document_compare\<close>.  The two values of \<^verbatim>\<open>"maps"\<close>
  are read and handed to \<^verbatim>\<open>zip_longest\<close>, which iterates them.
\<close>

definition compare ::
  "(pydict \<Rightarrow> pydict \<Rightarrow> error + pyval list) \<Rightarrow> (pyval \<Rightarrow> pyval \<Rightarrow> error + pyval list)
     \<Rightarrow> (layer \<Rightarrow> layer \<Rightarrow> error + pyval list) \<Rightarrow> (layer \<Rightarrow> layer \<Rightarrow> bool)
     \<Rightarrow> pydict \<Rightarrow> pydict \<Rightarrow> error + map_diff"
where
  "compare document_compare map_compare layer_compare sd was_description now_description =
     (case document_compare was_description now_description of
        Inl e \<Rightarrow> Inl e
      | Inr changes \<Rightarrow>
          (case getitem was_description ''maps'' of
             Inl e \<Rightarrow> Inl e
           | Inr was_value \<Rightarrow>
               (case getitem now_description ''maps'' of
                  Inl e \<Rightarrow> Inl e
                | Inr now_value \<Rightarrow>
                    (case iterate was_value of
                       Inl e \<Rightarrow> Inl e
                     | Inr was_maps \<Rightarrow>
                         (case iterate now_value of
                            Inl e \<Rightarrow> Inl e
                          | Inr now_maps \<Rightarrow>
                              (case map_err (\<lambda>(was_frame, now_frame).
                                        compare_map_frames map_compare layer_compare sd
                                          was_frame now_frame)
                                      (zip_longest was_maps now_maps) of
                                 Inl e \<Rightarrow> Inl e
                               | Inr frames \<Rightarrow>
                                   Inr \<lparr>map_changes = changes, map_frames = frames\<rparr>))))))"

section \<open>Replacement data sources: \<^verbatim>\<open>create_replacement_data_sources_list\<close>\<close>

text \<open>
  A data source template is a dict with the dicts \<^verbatim>\<open>"matchCriteria"\<close> and \<^verbatim>\<open>"dataSource"\<close>
  and, optionally, the dict \<^verbatim>\<open>"matchOptions"\<close>.
\<close>

record template =
  matchCriteria :: pydict
  dataSource :: pydict
  matchOptions :: "pydict option"

text \<open>
  \<^verbatim>\<open>set(iteritems(lowercase_dict(template["matchCriteria"])))\<close>: the items of the
  lower-cased criteria as a set, which raises \<^verbatim>\<open>TypeError\<close> when a value is not hashable.
\<close>

definition criteria_set :: "template \<Rightarrow> error + (string \<times> pyval) list" where
  "criteria_set t =
     (let items = lowercase_dict (matchCriteria t)
      in if list_all (\<lambda>kv. hashable (snd kv)) items then Inr items else Inl TypeError)"

definition template_sets :: "template list \<Rightarrow> error + ((string \<times> pyval) list \<times> template) list" where
  "template_sets data_source_templates =
     map_err (\<lambda>t. case criteria_set t of Inl e \<Rightarrow> Inl e | Inr c \<Rightarrow> Inr (c, t))
       data_source_templates"

text \<open>
  The values \<^verbatim>\<open>freeze\<close> returns: a \<^verbatim>\<open>frozenset\<close> of pairs for a dict, a tuple for a list,
  and the value itself otherwise.
\<close>

datatype frozen =
    FVal pyval
  | FTuple "frozen list"
  | FSet "(string \<times> frozen) list"

lemma size_list_dict_set:
  "size_list f (dict_set acc k v) \<le> size_list f acc + f (k, v) + 1"
  by (induction acc k v rule: dict_set.induct) auto

lemma lowercase_size:
  "size (lowercase_val v) \<le> size v"
  "size_list (size_prod (\<lambda>_. 0) size) (lowercase_items d acc)
     \<le> size_list (size_prod (\<lambda>_. 0) size) d + size_list (size_prod (\<lambda>_. 0) size) acc"
proof (induction v and d acc rule: lowercase_val_lowercase_items.induct)
  case (5 k v d acc)
  have "size_list (size_prod (\<lambda>_. 0) size) (dict_set acc (lower k) (lowercase_val v))
          \<le> size_list (size_prod (\<lambda>_. 0) size) acc + size_prod (\<lambda>_. 0) size (lower k, lowercase_val v) + 1"
    by (rule size_list_dict_set)
  with 5 show ?case by simp
qed simp_all

lemma size_list_member:
  "x \<in> set xs \<Longrightarrow> f x < size_list f xs"
  by (induction xs) auto

lemma lowercase_dict_value_size:
  assumes "kv \<in> set (lowercase_dict d)"
  shows "size (snd kv) < size (PDict d)"
proof -
  have "size_prod (\<lambda>_. 0) size kv < size_list (size_prod (\<lambda>_. 0) size) (lowercase_dict d)"
    using assms by (rule size_list_member)
  also have "\<dots> \<le> size_list (size_prod (\<lambda>_. 0) size) d"
    using lowercase_size(2) [of d "[]"] by (simp add: lowercase_dict_def)
  finally show ?thesis by (cases kv) simp
qed

function (sequential) freeze :: "pyval \<Rightarrow> frozen" where
  "freeze (PDict d) = FSet (map (\<lambda>kv. (fst kv, freeze (snd kv))) (lowercase_dict d))"
| "freeze (PList xs) = FTuple (map freeze xs)"
| "freeze d = FVal d"
  by pat_completeness auto
termination
proof (relation "measure size")
  show "wf (measure size)" by simp
next
  fix d :: pydict and kv
  assume "kv \<in> set (lowercase_dict d)"
  then show "(snd kv, PDict d) \<in> measure size"
    using lowercase_dict_value_size by simp
next
  fix xs :: "pyval list" and x
  assume "x \<in> set xs"
  then have "size x < size_list size xs" by (rule size_list_member)
  then show "(x, PList xs) \<in> measure size" by simp
qed

text \<open>
  \<^verbatim>\<open>criteria.issubset(set(freeze(layer_or_table)))\<close>: every pair of the criteria is a
  member of the set of pairs of the frozen layer.  Tuples are equal when their components
  are; a criteria value is hashable, so it equals no tuple and no frozenset.
\<close>

definition pair_in_frozen :: "string \<times> pyval \<Rightarrow> (string \<times> frozen) list \<Rightarrow> bool" where
  "pair_in_frozen c items =
     list_ex (\<lambda>kf. fst c = fst kf \<and> (case snd kf of FVal w \<Rightarrow> py_eq (snd c) w | _ \<Rightarrow> False)) items"

definition issubset :: "(string \<times> pyval) list \<Rightarrow> frozen \<Rightarrow> bool" where
  "issubset criteria fz =
     (case fz of
        FSet items \<Rightarrow> list_all (\<lambda>c. pair_in_frozen c items) criteria
      | _ \<Rightarrow> False)"

text \<open>\<^verbatim>\<open>d.get(k)\<close>: \<^verbatim>\<open>None\<close> for a missing key.\<close>

definition dict_get :: "pydict \<Rightarrow> string \<Rightarrow> pyval" where
  "dict_get d k = (case map_of d k of None \<Rightarrow> PNone | Some v \<Rightarrow> v)"

text \<open>
  The layers that cannot have their data updated:
  \<^verbatim>\<open>layer.get("isGroupLayer") == True and layer.get("isNetworkAnalystLayer") != True\<close>.
\<close>

definition is_skipped_group :: "layer \<Rightarrow> bool" where
  "is_skipped_group l =
     (py_eq (dict_get l ''isGroupLayer'') (PBool True)
      \<and> \<not> py_eq (dict_get l ''isNetworkAnalystLayer'') (PBool True))"

text \<open>\<^verbatim>\<open>template.get("matchOptions", {}).get("isWorkspaceContainer") == True\<close>.\<close>

definition is_workspace_container :: "template \<Rightarrow> bool" where
  "is_workspace_container t =
     py_eq (dict_get (case matchOptions t of None \<Rightarrow> [] | Some opts \<Rightarrow> opts)
              ''isWorkspaceContainer'')
           (PBool True)"

text \<open>
  What \<^verbatim>\<open>"{}".format(v)\<close> writes for a value: a string as it is, \<^verbatim>\<open>None\<close>, \<^verbatim>\<open>True\<close> and
  \<^verbatim>\<open>False\<close> by name, an integer in decimal.  The text of a list or a dict is Python's
  \<^verbatim>\<open>repr\<close>, which is the parameter \<open>repr\<close>.
\<close>

fun dec_nat :: "nat \<Rightarrow> string" where
  "dec_nat n =
     (if n < 10 then [''0123456789'' ! n]
      else dec_nat (n div 10) @ [''0123456789'' ! (n mod 10)])"

definition dec_int :: "int \<Rightarrow> string" where
  "dec_int i = (if i < 0 then CHR ''-'' # dec_nat (nat (- i)) else dec_nat (nat i))"

definition format_field :: "(pyval \<Rightarrow> string) \<Rightarrow> pyval \<Rightarrow> string" where
  "format_field repr v =
     (case v of
        PStr s \<Rightarrow> s
      | PNone \<Rightarrow> ''None''
      | PBool b \<Rightarrow> (if b then ''True'' else ''False'')
      | PInt i \<Rightarrow> dec_int i
      | _ \<Rightarrow> repr v)"

text \<open>
  The branch \<^verbatim>\<open>if tokens is not None\<close>: the new workspace path is built from the path of
  the copied data source and the tokens, by \<^verbatim>\<open>"{}\\{}.{}.gdb".format\<close> or
  \<^verbatim>\<open>"{}\\{}.gdb".format\<close>, where \<^verbatim>\<open>\\\<close> in the source text is one backslash, the
  character \<open>CHR 0x5C\<close>.  Every subscript raises \<^verbatim>\<open>KeyError\<close> on a missing key.
\<close>

definition derive_workspace_path :: "(pyval \<Rightarrow> string) \<Rightarrow> pydict \<Rightarrow> pydict \<Rightarrow> error + pydict" where
  "derive_workspace_path repr new_conn tokens =
     (case getitem tokens ''dataSet'' of
        Inl e \<Rightarrow> Inl e
      | Inr dataset \<Rightarrow>
          if dataset \<noteq> PNone then
            (case getitem tokens ''schema'' of
               Inl e \<Rightarrow> Inl e
             | Inr schema \<Rightarrow>
                 (case getitem new_conn ''workspacePath'' of
                    Inl e \<Rightarrow> Inl e
                  | Inr base \<Rightarrow>
                      if schema \<noteq> PNone then
                        Inr (dict_set new_conn ''workspacePath''
                               (PStr (format_field repr base @ [CHR 0x5C]
                                      @ format_field repr schema @ ''.''
                                      @ format_field repr dataset @ ''.gdb'')))
                      else
                        Inr (dict_set new_conn ''workspacePath''
                               (PStr (format_field repr base @ [CHR 0x5C]
                                      @ format_field repr dataset @ ''.gdb'')))))
          else
            (case getitem new_conn ''workspacePath'' of
               Inl e \<Rightarrow> Inl e
             | Inr base \<Rightarrow>
                 (case getitem tokens ''table'' of
                    Inl e \<Rightarrow> Inl e
                  | Inr table \<Rightarrow>
                      Inr (dict_set new_conn ''workspacePath''
                             (PStr (format_field repr base @ [CHR 0x5C]
                                    @ format_field repr table @ ''.gdb''))))))"

text \<open>
  The body of the loop for a template whose criteria match: the data source is copied,
  and for a workspace container the layer's data source is tokenised.
  \<^verbatim>\<open>tokenise_datasource\<close> (module \<^verbatim>\<open>_mapping_helpers\<close>, not among the sources) is the
  parameter \<open>tok\<close>; it returns a dict of tokens or \<^verbatim>\<open>None\<close>.
\<close>

definition apply_template ::
  "(pyval \<Rightarrow> pydict option) \<Rightarrow> (pyval \<Rightarrow> string) \<Rightarrow> template \<Rightarrow> layer \<Rightarrow> error + pydict"
where
  "apply_template tok repr t l =
     (let new_conn = dataSource t
      in if is_workspace_container t then
           (case getitem l ''dataSource'' of
              Inl e \<Rightarrow> Inl e
            | Inr ds \<Rightarrow>
                (case tok ds of
                   None \<Rightarrow> Inr new_conn
                 | Some tokens \<Rightarrow> derive_workspace_path repr new_conn tokens))
         else Inr new_conn)"

text \<open>
  The loop \<^verbatim>\<open>for template in template_sets\<close>, which ends at the first template whose
  criteria match (\<^verbatim>\<open>break\<close>); its result is \<^verbatim>\<open>new_conn\<close>.
\<close>

fun template_loop ::
  "(pyval \<Rightarrow> pydict option) \<Rightarrow> (pyval \<Rightarrow> string) \<Rightarrow> ((string \<times> pyval) list \<times> template) list
     \<Rightarrow> layer \<Rightarrow> error + pydict option"
where
  "template_loop tok repr [] l = Inr None"
| "template_loop tok repr ((criteria, t) # rest) l =
     (if issubset criteria (freeze (PDict l)) then
        (case apply_template tok repr t l of
           Inl e \<Rightarrow> Inl e
         | Inr new_conn \<Rightarrow> Inr (Some new_conn))
      else template_loop tok repr rest l)"

text \<open>
  \<^verbatim>\<open>match_new_data_source(layer_or_table)\<close>, with the variables of the enclosing function
  as arguments.  \<^verbatim>\<open>.get\<close> on a value that is neither \<^verbatim>\<open>None\<close> nor a dict raises
  \<^verbatim>\<open>AttributeError\<close>.
\<close>

definition match_new_data_source ::
  "(pyval \<Rightarrow> pydict option) \<Rightarrow> (pyval \<Rightarrow> string) \<Rightarrow> ((string \<times> pyval) list \<times> template) list
     \<Rightarrow> bool \<Rightarrow> pyval \<Rightarrow> error + pydict option"
where
  "match_new_data_source tok repr sets raise_exception_no_change layer_or_table =
     (case layer_or_table of
        PNone \<Rightarrow> Inr None
      | PDict l \<Rightarrow>
          if is_skipped_group l then Inr None
          else
            (case template_loop tok repr sets l of
               Inl e \<Rightarrow> Inl e
             | Inr new_conn \<Rightarrow>
                 if new_conn = None \<and> raise_exception_no_change then Inl RuntimeError
                 else Inr new_conn)
      | _ \<Rightarrow> Inl AttributeError)"





section \<open>Well-formed values\<close>

text \<open>Python keeps the keys of a dict unique: a well-formed value has no key twice.\<close>

fun wf_val :: "pyval \<Rightarrow> bool" where
  "wf_val (PList xs) = (\<forall>x\<in>set xs. wf_val x)"
| "wf_val (PDict d) = (distinct (map fst d) \<and> (\<forall>kv\<in>set d. wf_val (snd kv)))"
| "wf_val v = True"

section \<open>Layers with unique indices\<close>

text \<open>
  The key under which a dict finds a layer's index.  \<^verbatim>\<open>True\<close> and \<^verbatim>\<open>1\<close> are equal and
  hash alike, so they are one key.
\<close>

fun key_norm :: "pyval \<Rightarrow> pyval" where
  "key_norm (PBool b) = PInt (if b then 1 else 0)"
| "key_norm v = v"

definition layer_key :: "layer \<Rightarrow> pyval option" where
  "layer_key l = (case index_key l of Inl e \<Rightarrow> None | Inr i \<Rightarrow> Some (key_norm i))"

text \<open>Every layer of the list carries an index, and no two layers share one.\<close>

definition indexed :: "layer list \<Rightarrow> bool" where
  "indexed ls = (list_all (\<lambda>l. layer_key l \<noteq> None) ls \<and> distinct (map layer_key ls))"

section \<open>Auxiliary notions for the proofs\<close>

text \<open>
  A \<^verbatim>\<open>resolved\<close> dict read as a map from normalised keys, as long as all its keys are
  hashable; the old layers the dict does not hold; and the pair the last loop of
  \<^verbatim>\<open>_match_layers\<close> appends for an old layer.
\<close>

definition rmap :: "resolved \<Rightarrow> pyval \<Rightarrow> layer option option" where
  "rmap r = map_of (map (\<lambda>(k, v). (key_norm k, v)) r)"

definition hkeys :: "resolved \<Rightarrow> bool" where
  "hkeys r = (\<forall>k\<in>fst ` set r. hashable k)"

definition unresolved_in :: "resolved \<Rightarrow> layer \<Rightarrow> bool" where
  "unresolved_in rw l = (case layer_key l of None \<Rightarrow> False | Some k \<Rightarrow> rmap rw k = None)"

definition pair_of :: "(pyval \<Rightarrow> layer option option) \<Rightarrow> layer \<Rightarrow> (layer \<times> layer) list" where
  "pair_of m l =
     (case layer_key l of
        None \<Rightarrow> []
      | Some k \<Rightarrow> (case m k of Some (Some n) \<Rightarrow> if n = [] then [] else [(l, n)] | _ \<Rightarrow> []))"

text \<open>
  The state of \<^verbatim>\<open>_match_layers\<close> after the layers \<open>seen\<close> have each been paired with
  themselves.
\<close>

definition self_map :: "layer list \<Rightarrow> pyval \<Rightarrow> layer option option" where
  "self_map ls k = map_of (map (\<lambda>l. (layer_key l, Some l)) ls) (Some k)"

definition self_inv :: "layer list \<Rightarrow> match_state \<Rightarrow> bool" where
  "self_inv seen s =
     (added s = [] \<and> hkeys (resolved_was s) \<and> hkeys (resolved_now s)
      \<and> (\<forall>k. rmap (resolved_was s) k = self_map seen k)
      \<and> (\<forall>k. rmap (resolved_now s) k = self_map seen k))"

section \<open>Example layers\<close>

text \<open>
  One old layer and two new layers that agree with it in id, name and data source and
  differ from each other in their index only.
\<close>

definition roads_was :: layer where
  "roads_was =
     [(''index'', PInt 0), (''serviceId'', PInt 1), (''name'', PStr ''Roads''),
      (''dataSource'', PDict [(''workspacePath'', PStr ''roads.gdb'')])]"

definition roads_now0 :: layer where
  "roads_now0 =
     [(''index'', PInt 0), (''serviceId'', PInt 1), (''name'', PStr ''Roads''),
      (''dataSource'', PDict [(''workspacePath'', PStr ''roads.gdb'')])]"

definition roads_now1 :: layer where
  "roads_now1 =
     [(''index'', PInt 1), (''serviceId'', PInt 1), (''name'', PStr ''Roads''),
      (''dataSource'', PDict [(''workspacePath'', PStr ''roads.gdb'')])]"


definition layer_x :: layer where
  "layer_x =
     [(''index'', PInt 1), (''serviceId'', PInt 7), (''name'', PStr ''Lakes''),
      (''dataSource'', PDict [(''workspacePath'', PStr ''rivers.gdb'')])]"


text \<open>A frame with two layers.\<close>

definition roads_frame :: pydict where
  "roads_frame = [(''name'', PStr ''Layers''), (''layers'', PList [PDict roads_now0, PDict layer_x])]"

text \<open>A description with one frame and a description with no frame.\<close>

definition one_frame_doc :: pydict where
  "one_frame_doc = [(''maps'', PList [PDict roads_frame])]"

definition no_frame_doc :: pydict where
  "no_frame_doc = [(''maps'', PList [])]"

text \<open>
  Templates, the criteria sets made of them, the tokens of a data source, tokenisers,
  a network-analyst group layer and a group layer.
\<close>

definition data_path :: string where
  "data_path = ''C:'' @ [CHR 0x5C] @ ''Data''"

definition container_template :: template where
  "container_template =
     \<lparr>matchCriteria = [(''Name'', PStr ''Roads'')],
      dataSource = [(''workspacePath'', PStr data_path)],
      matchOptions = Some [(''isWorkspaceContainer'', PBool True)]\<rparr>"

definition plain_template :: template where
  "plain_template =
     \<lparr>matchCriteria = [(''name'', PStr ''roads'')],
      dataSource = [(''workspacePath'', PStr ''other.gdb'')],
      matchOptions = None\<rparr>"

definition rivers_template :: template where
  "rivers_template =
     \<lparr>matchCriteria = [(''name'', PStr ''Rivers'')],
      dataSource = [(''workspacePath'', PStr ''rivers.gdb'')],
      matchOptions = None\<rparr>"

definition roads_tokens :: pydict where
  "roads_tokens = [(''schema'', PStr ''dbo''), (''dataSet'', PStr ''Roads''), (''table'', PStr ''Roads_Lines'')]"

definition tok_roads :: "pyval \<Rightarrow> pydict option" where
  "tok_roads ds = Some roads_tokens"

definition dataset_tokens :: pydict where
  "dataset_tokens = [(''schema'', PNone), (''dataSet'', PStr ''Roads''), (''table'', PStr ''Roads_Lines'')]"

definition tok_dataset :: "pyval \<Rightarrow> pydict option" where
  "tok_dataset ds = Some dataset_tokens"

definition table_tokens :: pydict where
  "table_tokens = [(''schema'', PNone), (''dataSet'', PNone), (''table'', PStr ''Roads_Lines'')]"

definition tok_table :: "pyval \<Rightarrow> pydict option" where
  "tok_table ds = Some table_tokens"

definition tok_none :: "pyval \<Rightarrow> pydict option" where
  "tok_none ds = None"

definition no_repr :: "pyval \<Rightarrow> string" where
  "no_repr v = []"

definition example_sets :: "((string \<times> pyval) list \<times> template) list" where
  "example_sets =
     [([(''name'', PStr ''rivers'')], rivers_template),
      ([(''name'', PStr ''roads'')], container_template),
      ([(''name'', PStr ''roads'')], plain_template)]"

definition strict_template :: template where
  "strict_template =
     \<lparr>matchCriteria = [(''Name'', PStr ''Roads''), (''serviceId'', PInt 99)],
      dataSource = [(''workspacePath'', PStr ''strict.gdb'')],
      matchOptions = None\<rparr>"

definition ranked_sets :: "((string \<times> pyval) list \<times> template) list" where
  "ranked_sets =
     [([(''name'', PStr ''rivers'')], rivers_template),
      ([(''name'', PStr ''roads''), (''serviceid'', PInt 99)], strict_template),
      ([(''name'', PStr ''roads'')], container_template),
      ([(''name'', PStr ''roads'')], plain_template)]"

definition network_layer :: layer where
  "network_layer =
     [(''index'', PInt 3), (''name'', PStr ''Roads''), (''isGroupLayer'', PBool True),
      (''isNetworkAnalystLayer'', PBool True)]"

definition group_layer :: layer where
  "group_layer = [(''index'', PInt 2), (''name'', PStr ''Roads''), (''isGroupLayer'', PBool True)]"

section \<open>Properties of the layer reconciliation\<close>

lemmas match_layers_unfold =
  match_layers_def match_now_def test_if_matching_layer_def tests_def same_id_def
  same_name_def attr_shallow_eq_def index_key_def is_resolved_def both_unresolved_def

lemmas same_datasource_unfold =
  same_datasource_def lowercase_dict_def lower_def lower_char_def

text \<open>
  Claim C1 (partition invariant), at a failing input.  The old list holds one layer, the
  new list two layers with distinct indices that both agree with it in id, name and data
  source.  The first test has no \<^verbatim>\<open>is_resolved\<close> condition, so both new layers claim the
  old layer and the second overwrites the first in \<^verbatim>\<open>resolved_was\<close>: the new layer with
  index 0 is neither in \<^verbatim>\<open>added\<close> nor a second component of \<^verbatim>\<open>matched\<close>.
\<close>

theorem match_layers_drops_new_layer:
  "match_layers same_datasource [roads_was] [roads_now0, roads_now1]
     = Inr ([], [(roads_was, roads_now1)], [])"
  by (simp add: match_layers_unfold same_datasource_unfold
      roads_was_def roads_now0_def roads_now1_def)

text \<open>
  Claim C2 (resolved layers are excluded from further matching), at the same failing
  input.  After the outer loop, \<^verbatim>\<open>resolved_now\<close> pairs both new layers with the one old
  layer: the old layer was claimed twice.  The test that matched the second time is the
  first one, which holds although the old layer is already in \<^verbatim>\<open>resolved_was\<close>.
\<close>

theorem match_loop_claims_old_layer_twice:
  "match_loop same_datasource [roads_was]
       \<lparr>added = [], resolved_was = [], resolved_now = []\<rparr> [roads_now0, roads_now1]
     = Inr \<lparr>added = [],
            resolved_was = [(PInt 0, Some roads_now1)],
            resolved_now = [(PInt 0, Some roads_was), (PInt 1, Some roads_was)]\<rparr>
   \<and> is_resolved [(PInt 0, Some roads_now0)] roads_was = Inr True
   \<and> test_if_matching_layer same_datasource
         [(PInt 0, Some roads_now0)] [(PInt 0, Some roads_was)] roads_was roads_now1
       = Inr True"
  by (simp add: match_layers_unfold same_datasource_unfold
      roads_was_def roads_now0_def roads_now1_def)

subsection \<open>The loops, read through the maps\<close>

lemma py_eq_hashable:
  "hashable a \<Longrightarrow> hashable b \<Longrightarrow> py_eq a b = (key_norm a = key_norm b)"
  by (cases a; cases b) auto

lemma hkeys_Nil [simp]: "hkeys []"
  by (simp add: hkeys_def)

lemma hkeys_Cons [simp]: "hkeys ((k, v) # r) = (hashable k \<and> hkeys r)"
  by (simp add: hkeys_def)

lemma rmap_Nil [simp]: "rmap [] = Map.empty"
  by (simp add: rmap_def)

lemma rmap_Cons [simp]: "rmap ((k, v) # r) = (rmap r)(key_norm k \<mapsto> v)"
  by (simp add: rmap_def)

lemma resolved_has_rmap:
  "hkeys r \<Longrightarrow> hashable k \<Longrightarrow> resolved_has r k = (rmap r (key_norm k) \<noteq> None)"
  by (induction r) (auto simp: py_eq_hashable split: if_splits)

lemma resolved_get_rmap:
  "hkeys r \<Longrightarrow> hashable k \<Longrightarrow>
   resolved_get r k = (case rmap r (key_norm k) of None \<Rightarrow> Inl KeyError | Some v \<Rightarrow> Inr v)"
  by (induction r) (auto simp: py_eq_hashable split: if_splits)

lemma resolved_set_rmap:
  "hkeys r \<Longrightarrow> hashable k \<Longrightarrow> rmap (resolved_set r k v) = (rmap r)(key_norm k \<mapsto> v)"
  by (induction r) (auto simp: py_eq_hashable fun_upd_twist split: if_splits)

lemma resolved_set_hkeys:
  "hkeys r \<Longrightarrow> hashable k \<Longrightarrow> hkeys (resolved_set r k v)"
  by (induction r) auto

lemma layer_key_SomeD:
  "layer_key l = Some k \<Longrightarrow> \<exists>i. index_key l = Inr i \<and> hashable i \<and> key_norm i = k"
  by (auto simp: layer_key_def index_key_def split: sum.splits option.splits if_splits)

lemma is_resolved_rmap:
  "hkeys r \<Longrightarrow> layer_key l = Some k \<Longrightarrow> is_resolved r l = Inr (rmap r k \<noteq> None)"
  by (auto simp: is_resolved_def resolved_has_rmap dest!: layer_key_SomeD)

lemma run_tests_closed:
  "test_if_matching_layer sd rw rn a b =
     (if same_id a b \<and> same_name a b \<and> sd a b then Inr True
      else if same_id a b \<or> same_name a b then both_unresolved rw rn a b
      else Inr False)"
  by (cases "both_unresolved rw rn a b")
     (auto simp: test_if_matching_layer_def tests_def)

lemma both_unresolved_rmap:
  "hkeys rw \<Longrightarrow> hkeys rn \<Longrightarrow> layer_key a = Some ka \<Longrightarrow> layer_key b = Some kb \<Longrightarrow>
   both_unresolved rw rn a b = Inr (rmap rw ka = None \<and> rmap rn kb = None)"
  by (simp add: both_unresolved_def is_resolved_rmap)

lemma find_was_first:
  "\<forall>p\<in>set pre. test_if_matching_layer sd rw rn p n = Inr False \<Longrightarrow>
   test_if_matching_layer sd rw rn w n = Inr True \<Longrightarrow>
   find_was sd rw rn (pre @ w # post) n = Inr (Some w)"
  by (induction pre) auto

lemma find_was_none:
  "\<forall>p\<in>set ws. test_if_matching_layer sd rw rn p n = Inr False \<Longrightarrow>
   find_was sd rw rn ws n = Inr None"
  by (induction ws) auto

lemma removed_loop_rmap:
  "hkeys rw \<Longrightarrow> indexed ls \<Longrightarrow>
   \<exists>rw'. removed_loop rw ls = Inr (rw', filter (unresolved_in rw) ls) \<and> hkeys rw' \<and>
     (\<forall>k. rmap rw' k =
        (if rmap rw k = None \<and> Some k \<in> layer_key ` set ls then Some None else rmap rw k))"
proof (induction ls arbitrary: rw)
  case Nil
  then show ?case by simp
next
  case (Cons l ls)
  from Cons.prems obtain k where k: "layer_key l = Some k"
    by (auto simp: indexed_def)
  then obtain i where i: "index_key l = Inr i" "hashable i" "key_norm i = k"
    by (auto dest: layer_key_SomeD)
  have ind: "indexed ls" and notin: "Some k \<notin> layer_key ` set ls"
    using Cons.prems k by (auto simp: indexed_def)
  show ?case
  proof (cases "rmap rw k = None")
    case False
    from Cons.IH [OF Cons.prems(1) ind] obtain rw' where rw':
      "removed_loop rw ls = Inr (rw', filter (unresolved_in rw) ls)" "hkeys rw'"
      "\<forall>k. rmap rw' k =
        (if rmap rw k = None \<and> Some k \<in> layer_key ` set ls then Some None else rmap rw k)"
      by blast
    have "removed_loop rw (l # ls) = Inr (rw', filter (unresolved_in rw) (l # ls))"
      using False i k rw'(1) Cons.prems(1)
      by (simp add: resolved_has_rmap unresolved_in_def)
    moreover have "\<forall>k'. rmap rw' k' =
        (if rmap rw k' = None \<and> Some k' \<in> layer_key ` set (l # ls) then Some None else rmap rw k')"
      using rw'(3) False k by auto
    ultimately show ?thesis using rw'(2) by blast
  next
    case True
    let ?rw1 = "resolved_set rw i None"
    have h1: "hkeys ?rw1" using Cons.prems(1) i by (simp add: resolved_set_hkeys)
    have m1: "rmap ?rw1 = (rmap rw)(k \<mapsto> None)"
      using Cons.prems(1) i by (simp add: resolved_set_rmap)
    from Cons.IH [OF h1 ind] obtain rw' where rw':
      "removed_loop ?rw1 ls = Inr (rw', filter (unresolved_in ?rw1) ls)" "hkeys rw'"
      "\<forall>k. rmap rw' k =
        (if rmap ?rw1 k = None \<and> Some k \<in> layer_key ` set ls then Some None else rmap ?rw1 k)"
      by blast
    have same: "filter (unresolved_in ?rw1) ls = filter (unresolved_in rw) ls"
    proof (rule filter_cong [OF refl])
      fix x assume "x \<in> set ls"
      then have "layer_key x \<noteq> Some k" using notin by force
      then show "unresolved_in ?rw1 x = unresolved_in rw x"
        by (auto simp: unresolved_in_def m1 split: option.splits)
    qed
    have "removed_loop rw (l # ls) = Inr (rw', filter (unresolved_in rw) (l # ls))"
      using True i k rw'(1) Cons.prems(1) same
      by (simp add: resolved_has_rmap unresolved_in_def)
    moreover have "\<forall>k'. rmap rw' k' =
        (if rmap rw k' = None \<and> Some k' \<in> layer_key ` set (l # ls) then Some None else rmap rw k')"
      using rw'(3) True k m1 by auto
    ultimately show ?thesis using rw'(2) by blast
  qed
qed

lemma matched_loop_rmap:
  "hkeys rw \<Longrightarrow> \<forall>l\<in>set ls. \<exists>k. layer_key l = Some k \<and> rmap rw k \<noteq> None \<Longrightarrow>
   matched_loop rw ls = Inr (concat (map (pair_of (rmap rw)) ls))"
proof (induction ls)
  case Nil
  then show ?case by simp
next
  case (Cons l ls)
  from Cons.prems obtain k v where k: "layer_key l = Some k" "rmap rw k = Some v"
    by auto
  then obtain i where i: "index_key l = Inr i" "hashable i" "key_norm i = k"
    by (auto dest: layer_key_SomeD)
  have "matched_loop rw ls = Inr (concat (map (pair_of (rmap rw)) ls))"
    using Cons by simp
  moreover have "pair_of (rmap rw) l =
      (case v of None \<Rightarrow> [] | Some n \<Rightarrow> if n = [] then [] else [(l, n)])"
    using k by (simp add: pair_of_def)
  ultimately show ?case
    using k i Cons.prems(1)
    by (auto simp: resolved_get_rmap split: option.splits)
qed

lemma layer_key_nonempty: "layer_key n = Some k \<Longrightarrow> n \<noteq> []"
  by (auto simp: layer_key_def index_key_def)



subsection \<open>Which old layer a new layer is paired with\<close>






subsection \<open>A layer list reconciled with itself\<close>

lemma py_eq_lookup_map_of:
  "py_eq_lookup k v e = (case map_of e k of None \<Rightarrow> False | Some w \<Rightarrow> py_eq v w)"
  by (induction e) auto

lemma py_eq_items_all:
  "py_eq_items d e = (\<forall>kv\<in>set d. py_eq_lookup (fst kv) (snd kv) e)"
  by (induction d) auto

lemma py_eq_list_refl: "\<forall>x\<in>set xs. py_eq x x \<Longrightarrow> py_eq_list xs xs"
  by (induction xs) auto

lemma py_eq_refl: "wf_val v \<Longrightarrow> py_eq v v"
proof (induction v)
  case (PList xs)
  then show ?case by (auto intro: py_eq_list_refl)
next
  case (PDict d)
  have "py_eq_lookup (fst kv) (snd kv) d" if "kv \<in> set d" for kv
  proof -
    have "map_of d (fst kv) = Some (snd kv)"
      using PDict.prems that by simp
    moreover have "py_eq (snd kv) (snd kv)"
      using PDict.IH [of kv "snd kv"] PDict.prems that by (cases kv) auto
    ultimately show ?thesis by (simp add: py_eq_lookup_map_of)
  qed
  then show ?case by (simp add: py_eq_items_all)
qed (auto split: if_splits)

lemma attr_shallow_eq_refl:
  "wf_val (PDict l) \<Longrightarrow> map_of l k \<noteq> None \<Longrightarrow> attr_shallow_eq l l k"
proof -
  assume wf: "wf_val (PDict l)" and "map_of l k \<noteq> None"
  then obtain v where v: "map_of l k = Some v" by auto
  then have "(k, v) \<in> set l" by (rule map_of_SomeD)
  then have "wf_val v" using wf by auto
  then show ?thesis using v by (simp add: attr_shallow_eq_def py_eq_refl)
qed

lemma self_map_Nil [simp]: "self_map [] k = None"
  by (simp add: self_map_def)

lemma self_map_member:
  assumes "distinct (map layer_key ls)" "l \<in> set ls" "layer_key l = Some k"
  shows "self_map ls k = Some (Some l)"
proof -
  have "distinct (map fst (map (\<lambda>l. (layer_key l, Some l)) ls))"
    using assms(1) by (simp add: comp_def)
  moreover have "(Some k, Some l) \<in> set (map (\<lambda>l. (layer_key l, Some l)) ls)"
    using assms(2,3) by force
  ultimately show ?thesis
    unfolding self_map_def by (simp only: map_of_eq_Some_iff)
qed

lemma self_map_absent:
  assumes "Some k \<notin> layer_key ` set ls"
  shows "self_map ls k = None"
proof -
  have "Some k \<notin> fst ` set (map (\<lambda>l. (layer_key l, Some l)) ls)"
    using assms by force
  then have "map_of (map (\<lambda>l. (layer_key l, Some l)) ls) (Some k) = None"
    by (rule map_of_eq_None_iff [THEN iffD2])
  then show ?thesis
    by (simp add: self_map_def)
qed

lemma self_map_snoc:
  "layer_key n = Some kn \<Longrightarrow> Some kn \<notin> layer_key ` set ls \<Longrightarrow>
   self_map (ls @ [n]) k = (if k = kn then Some (Some n) else self_map ls k)"
  using self_map_absent [of kn ls]
  by (auto simp: self_map_def map_add_def split: option.splits)

lemma match_now_self:
  assumes idx: "indexed (seen @ n # rest)"
    and inv: "self_inv seen s"
    and self: "same_id n n \<or> same_name n n"
    and t1: "\<forall>p\<in>set seen. \<not> (same_id p n \<and> same_name p n \<and> sd p n)"
  shows "\<exists>s'. match_now sd (seen @ n # rest) s n = Inr s' \<and> self_inv (seen @ [n]) s'"
proof -
  let ?rw = "resolved_was s" and ?rn = "resolved_now s"
  from idx obtain kn where kn: "layer_key n = Some kn"
    by (auto simp: indexed_def)
  then obtain jn where jn: "index_key n = Inr jn" "hashable jn" "key_norm jn = kn"
    by (auto dest: layer_key_SomeD)
  have dist: "distinct (map layer_key seen @ layer_key n # map layer_key rest)"
    using idx by (simp add: indexed_def)
  then have fresh: "Some kn \<notin> layer_key ` set seen"
    using kn by auto
  have ddone: "distinct (map layer_key seen)" using dist by simp
  have hk: "hkeys ?rw" "hkeys ?rn" and mw: "\<And>k. rmap ?rw k = self_map seen k"
    and mn: "\<And>k. rmap ?rn k = self_map seen k"
    using inv by (simp_all add: self_inv_def)
  have miss: "\<forall>p\<in>set seen. test_if_matching_layer sd ?rw ?rn p n = Inr False"
  proof
    fix p assume p: "p \<in> set seen"
    then have "layer_key p \<noteq> None" using idx by (auto simp: indexed_def list_all_iff)
    then obtain kp where kp: "layer_key p = Some kp" by auto
    have "rmap ?rw kp = Some (Some p)"
      using self_map_member [OF ddone p kp] mw by simp
    then have "both_unresolved ?rw ?rn p n = Inr False"
      using both_unresolved_rmap [OF hk kp kn] by simp
    then show "test_if_matching_layer sd ?rw ?rn p n = Inr False"
      using t1 p by (simp add: run_tests_closed)
  qed
  have none: "rmap ?rw kn = None" "rmap ?rn kn = None"
    using self_map_absent [OF fresh] mw mn by simp_all
  then have "both_unresolved ?rw ?rn n n = Inr True"
    using both_unresolved_rmap [OF hk kn kn] by simp
  then have hit: "test_if_matching_layer sd ?rw ?rn n n = Inr True"
    using self by (auto simp: run_tests_closed)
  have found: "find_was sd ?rw ?rn (seen @ n # rest) n = Inr (Some n)"
    by (rule find_was_first [OF miss hit])
  let ?s' = "s\<lparr>resolved_was := resolved_set ?rw jn (Some n),
               resolved_now := resolved_set ?rn jn (Some n)\<rparr>"
  have step: "match_now sd (seen @ n # rest) s n = Inr ?s'"
    using found jn by (simp add: match_now_def)
  have "rmap (resolved_set ?rw jn (Some n)) k = self_map (seen @ [n]) k" for k
    using resolved_set_rmap [OF hk(1) jn(2)] jn(3) mw self_map_snoc [OF kn fresh]
    by simp
  moreover have "rmap (resolved_set ?rn jn (Some n)) k = self_map (seen @ [n]) k" for k
    using resolved_set_rmap [OF hk(2) jn(2)] jn(3) mn self_map_snoc [OF kn fresh]
    by simp
  moreover have "hkeys (resolved_set ?rw jn (Some n))" "hkeys (resolved_set ?rn jn (Some n))"
    using hk jn(2) by (simp_all add: resolved_set_hkeys)
  moreover have "added ?s' = []" using inv by (simp add: self_inv_def)
  ultimately have "self_inv (seen @ [n]) ?s'"
    by (simp add: self_inv_def)
  with step show ?thesis by blast
qed

lemma match_loop_self:
  assumes "indexed (seen @ rest)" "self_inv seen s"
    and "\<forall>l\<in>set rest. same_id l l \<or> same_name l l"
    and "\<forall>a\<in>set (seen @ rest). \<forall>b\<in>set (seen @ rest).
           a \<noteq> b \<longrightarrow> \<not> (same_id a b \<and> same_name a b \<and> sd a b)"
  shows "\<exists>s'. match_loop sd (seen @ rest) s rest = Inr s' \<and> self_inv (seen @ rest) s'"
  using assms
proof (induction rest arbitrary: seen s)
  case Nil
  then show ?case by simp
next
  case (Cons n rest)
  have dist: "distinct (map layer_key seen @ layer_key n # map layer_key rest)"
    using Cons.prems(1) by (simp add: indexed_def)
  have kn: "layer_key n \<noteq> None" using Cons.prems(1) by (simp add: indexed_def)
  have "\<forall>p\<in>set seen. p \<noteq> n"
    using dist by auto
  then have t1: "\<forall>p\<in>set seen. \<not> (same_id p n \<and> same_name p n \<and> sd p n)"
    using Cons.prems(4) by auto
  have self: "same_id n n \<or> same_name n n" using Cons.prems(3) by simp
  have "\<exists>s1. match_now sd (seen @ n # rest) s n = Inr s1 \<and> self_inv (seen @ [n]) s1"
    using Cons.prems(1,2) self t1 by (rule match_now_self)
  then obtain s1 where s1:
    "match_now sd (seen @ n # rest) s n = Inr s1" "self_inv (seen @ [n]) s1"
    by blast
  have e: "(seen @ [n]) @ rest = seen @ n # rest" by simp
  have "\<exists>s'. match_loop sd ((seen @ [n]) @ rest) s1 rest = Inr s'
      \<and> self_inv ((seen @ [n]) @ rest) s'"
  proof (rule Cons.IH)
    show "indexed ((seen @ [n]) @ rest)" using Cons.prems(1) by simp
    show "self_inv (seen @ [n]) s1" by (rule s1(2))
    show "\<forall>l\<in>set rest. same_id l l \<or> same_name l l" using Cons.prems(3) by simp
    show "\<forall>a\<in>set ((seen @ [n]) @ rest). \<forall>b\<in>set ((seen @ [n]) @ rest).
           a \<noteq> b \<longrightarrow> \<not> (same_id a b \<and> same_name a b \<and> sd a b)"
      using Cons.prems(4) by simp
  qed
  then show ?case using s1(1) by (simp add: e)
qed

text \<open>
  The defect of the first test needs two layers that agree in service id, name and data
  source.  In a list of well-formed layers with unique indices, each with a service id
  or a name, that holds no two such layers, every layer is paired with itself.
\<close>

lemma identity_without_twins:
  assumes idx: "indexed L"
    and wf: "\<forall>l\<in>set L. wf_val (PDict l)
               \<and> (map_of l ''serviceId'' \<noteq> None \<or> map_of l ''name'' \<noteq> None)"
    and t1: "\<forall>a\<in>set L. \<forall>b\<in>set L. a \<noteq> b \<longrightarrow> \<not> (same_id a b \<and> same_name a b \<and> sd a b)"
  shows "match_layers sd L L = Inr ([], map (\<lambda>l. (l, l)) L, [])"
proof -
  let ?s0 = "\<lparr>added = [], resolved_was = [], resolved_now = []\<rparr>"
  have self: "\<forall>l\<in>set L. same_id l l \<or> same_name l l"
  proof
    fix l assume "l \<in> set L"
    then have w: "wf_val (PDict l)"
      and k: "map_of l ''serviceId'' \<noteq> None \<or> map_of l ''name'' \<noteq> None"
      using wf by blast+
    from k show "same_id l l \<or> same_name l l"
      unfolding same_id_def same_name_def
      using attr_shallow_eq_refl [OF w] by blast
  qed
  have inv0: "self_inv [] ?s0"
    by (simp add: self_inv_def)
  have "\<exists>s'. match_loop sd ([] @ L) ?s0 L = Inr s' \<and> self_inv ([] @ L) s'"
    using idx inv0 self t1 by (intro match_loop_self) simp_all
  then obtain s where s: "match_loop sd L ?s0 L = Inr s" "self_inv L s"
    by auto
  let ?rw = "resolved_was s"
  have hk: "hkeys ?rw" and mw: "\<And>k. rmap ?rw k = self_map L k" and ad: "added s = []"
    using s(2) by (simp_all add: self_inv_def)
  have dist: "distinct (map layer_key L)" using idx by (simp add: indexed_def)
  have key: "\<forall>l\<in>set L. \<exists>k. layer_key l = Some k \<and> rmap ?rw k = Some (Some l)"
  proof
    fix l assume l: "l \<in> set L"
    then have "layer_key l \<noteq> None" using idx by (auto simp: indexed_def list_all_iff)
    then obtain k where k: "layer_key l = Some k" by auto
    then have "rmap ?rw k = Some (Some l)"
      using self_map_member [OF dist l k] mw by simp
    with k show "\<exists>k. layer_key l = Some k \<and> rmap ?rw k = Some (Some l)" by blast
  qed
  from removed_loop_rmap [OF hk idx] obtain rw' where rw':
    "removed_loop ?rw L = Inr (rw', filter (unresolved_in ?rw) L)" "hkeys rw'"
    "\<forall>k. rmap rw' k =
      (if rmap ?rw k = None \<and> Some k \<in> layer_key ` set L then Some None else rmap ?rw k)"
    by blast
  have "\<forall>l\<in>set L. \<not> unresolved_in ?rw l"
  proof
    fix l assume "l \<in> set L"
    with key obtain k where "layer_key l = Some k" "rmap ?rw k = Some (Some l)" by blast
    then show "\<not> unresolved_in ?rw l" by (simp add: unresolved_in_def)
  qed
  then have removed: "filter (unresolved_in ?rw) L = []"
    by (simp add: filter_empty_conv)
  have key': "\<forall>l\<in>set L. \<exists>k. layer_key l = Some k \<and> rmap rw' k = Some (Some l)"
  proof
    fix l assume "l \<in> set L"
    with key obtain k where k: "layer_key l = Some k" "rmap ?rw k = Some (Some l)" by blast
    then have "rmap rw' k = Some (Some l)" using rw'(3) by simp
    with k(1) show "\<exists>k. layer_key l = Some k \<and> rmap rw' k = Some (Some l)" by blast
  qed
  have all: "\<forall>l\<in>set L. \<exists>k. layer_key l = Some k \<and> rmap rw' k \<noteq> None"
  proof
    fix l assume "l \<in> set L"
    with key' obtain k where "layer_key l = Some k" "rmap rw' k = Some (Some l)" by blast
    then show "\<exists>k. layer_key l = Some k \<and> rmap rw' k \<noteq> None" by auto
  qed
  have pairs: "\<forall>l\<in>set L. pair_of (rmap rw') l = [(l, l)]"
  proof
    fix l assume "l \<in> set L"
    with key' obtain k where k: "layer_key l = Some k" "rmap rw' k = Some (Some l)" by blast
    then show "pair_of (rmap rw') l = [(l, l)]"
      using layer_key_nonempty [OF k(1)] by (simp add: pair_of_def)
  qed
  have "concat (map (pair_of (rmap rw')) L) = map (\<lambda>l. (l, l)) L"
    using pairs by (induction L) auto
  then have matched: "matched_loop rw' L = Inr (map (\<lambda>l. (l, l)) L)"
    using matched_loop_rmap [OF rw'(2) all] by simp
  show ?thesis
    using s(1) ad rw'(1) removed matched by (simp add: match_layers_def)
qed

text \<open>
  Claim C4 (identity stability).  The claim says that a layer list with distinct indices
  reconciled with an identical copy gives no added and no removed layer and pairs every
  layer with its counterpart.  For two layers with the indices 0 and 1 that agree in
  service id, name and data source it does not: the first test has no \<^verbatim>\<open>is_resolved\<close>
  condition, so the second new layer is paired with the first old layer, which the first
  new layer had been paired with.  The first old layer is returned with the second new
  layer as its match, and the second old layer is returned as removed.
\<close>

theorem twin_layers_not_stable:
  "indexed [roads_now0, roads_now1]
   \<and> match_layers same_datasource [roads_now0, roads_now1] [roads_now0, roads_now1]
       = Inr ([], [(roads_now0, roads_now1)], [roads_now1])"
  by code_simp

section \<open>Properties of the frame comparison\<close>

lemma compare_map_frames_absent_new:
  "isl (compare_map_frames map_compare layer_compare sd (PDict was) PNone)"
  by (simp add: compare_map_frames_def subscript_def split: sum.splits)

text \<open>
  Claim C6 (frame pairing tolerance).  The claim says that \<^verbatim>\<open>compare\<close> returns one frame
  diff per position of the longer list without failing.  When the old description has a
  frame and the new description has none, \<^verbatim>\<open>zip_longest\<close> pairs the old frame with
  \<^verbatim>\<open>None\<close>, and \<^verbatim>\<open>_compare_map_frames\<close> subscripts that \<^verbatim>\<open>None\<close>: whatever the comparers of
  \<^verbatim>\<open>compare_types\<close> do, \<^verbatim>\<open>compare\<close> raises.
\<close>

theorem compare_fails_on_removed_frame:
  "isl (compare document_compare map_compare layer_compare sd one_frame_doc no_frame_doc)"
proof (cases "document_compare one_frame_doc no_frame_doc")
  case (Inl e)
  then show ?thesis by (simp add: compare_def)
next
  case (Inr changes)
  have w: "getitem one_frame_doc ''maps'' = Inr (PList [PDict roads_frame])"
    by (simp add: getitem_def one_frame_doc_def)
  have n: "getitem no_frame_doc ''maps'' = Inr (PList [])"
    by (simp add: getitem_def no_frame_doc_def)
  obtain e where "compare_map_frames map_compare layer_compare sd (PDict roads_frame) PNone = Inl e"
    using compare_map_frames_absent_new [of map_compare layer_compare sd roads_frame]
    by (cases "compare_map_frames map_compare layer_compare sd (PDict roads_frame) PNone") simp_all
  then show ?thesis
    using Inr w n by (simp add: compare_def iterate_def)
qed

section \<open>Properties of the replacement data sources\<close>

lemma template_loop_first:
  assumes "\<forall>ct\<in>set pre. \<not> issubset (fst ct) (freeze (PDict l))"
    and "issubset c (freeze (PDict l))"
  shows "template_loop tok repr (pre @ (c, t) # post) l =
           (case apply_template tok repr t l of Inl e \<Rightarrow> Inl e | Inr nc \<Rightarrow> Inr (Some nc))"
  using assms by (induction pre) auto


lemma derive_workspace_path_error:
  "derive_workspace_path repr nc tokens = Inl e \<Longrightarrow> e = KeyError"
  by (auto simp: derive_workspace_path_def getitem_def split: option.splits if_splits)

lemma apply_template_error:
  "apply_template tok repr t l = Inl e \<Longrightarrow> e = KeyError"
  by (auto simp: apply_template_def Let_def getitem_def split: option.splits if_splits
           dest: derive_workspace_path_error)


lemma map_of_dict_set_other:
  "k' \<noteq> k \<Longrightarrow> map_of (dict_set d k v) k' = map_of d k'"
  by (induction d k v rule: dict_set.induct) auto

lemma derive_workspace_path_copy:
  assumes "derive_workspace_path repr d tokens = Inr nc" and "k \<noteq> ''workspacePath''"
  shows "map_of nc k = map_of d k"
  using assms
  by (auto simp: derive_workspace_path_def map_of_dict_set_other
           split: sum.splits if_splits)

lemma apply_template_copy:
  assumes "apply_template tok repr t l = Inr nc" and "k \<noteq> ''workspacePath''"
  shows "map_of nc k = map_of (dataSource t) k"
  using assms
  by (auto simp: apply_template_def Let_def
           split: sum.splits if_splits option.splits
           dest: derive_workspace_path_copy)


text \<open>
  Claim C7 (workspace path derivation).  Let the template \<open>t\<close> be the first whose criteria
  match the layer \<open>l\<close>, let it be a workspace container, and let the layer's data source
  tokenise to tokens with the fields \<^verbatim>\<open>schema\<close>, \<^verbatim>\<open>dataSet\<close> and \<^verbatim>\<open>table\<close>.  Then the
  result is the copy of the template's data source whose \<^verbatim>\<open>workspacePath\<close> is set by
  exactly one pattern: the base path, a backslash and \<^verbatim>\<open>schema.dataSet.gdb\<close> when data
  set and schema are both present, \<^verbatim>\<open>dataSet.gdb\<close> when only the data set is, and
  \<^verbatim>\<open>table.gdb\<close> otherwise.  The first conjunct states it for arbitrary values, written as
  \<^verbatim>\<open>format\<close> writes them; the other three state each pattern for strings.
\<close>

theorem workspace_path_derivation:
  assumes "\<forall>ct\<in>set pre. \<not> issubset (fst ct) (freeze (PDict l))"
    and "issubset c (freeze (PDict l))"
    and "\<not> is_skipped_group l"
    and "is_workspace_container t"
    and "map_of l ''dataSource'' = Some ds"
    and "tok ds = Some tokens"
    and "map_of tokens ''schema'' = Some schema"
    and "map_of tokens ''dataSet'' = Some dataset"
    and "map_of tokens ''table'' = Some table"
    and "map_of (dataSource t) ''workspacePath'' = Some base"
  shows "match_new_data_source tok repr (pre @ (c, t) # post) flag (PDict l) =
           Inr (Some (dict_set (dataSource t) ''workspacePath''
                  (PStr (if dataset \<noteq> PNone \<and> schema \<noteq> PNone
                         then format_field repr base @ [CHR 0x5C] @ format_field repr schema
                              @ ''.'' @ format_field repr dataset @ ''.gdb''
                         else if dataset \<noteq> PNone
                         then format_field repr base @ [CHR 0x5C] @ format_field repr dataset
                              @ ''.gdb''
                         else format_field repr base @ [CHR 0x5C] @ format_field repr table
                              @ ''.gdb''))))
       \<and> (base = PStr b \<and> schema = PStr sch \<and> dataset = PStr dst
            \<longrightarrow> match_new_data_source tok repr (pre @ (c, t) # post) flag (PDict l) =
                Inr (Some (dict_set (dataSource t) ''workspacePath''
                       (PStr (b @ [CHR 0x5C] @ sch @ ''.'' @ dst @ ''.gdb'')))))
       \<and> (base = PStr b \<and> schema = PNone \<and> dataset = PStr dst
            \<longrightarrow> match_new_data_source tok repr (pre @ (c, t) # post) flag (PDict l) =
                Inr (Some (dict_set (dataSource t) ''workspacePath''
                       (PStr (b @ [CHR 0x5C] @ dst @ ''.gdb'')))))
       \<and> (base = PStr b \<and> dataset = PNone \<and> table = PStr tb
            \<longrightarrow> match_new_data_source tok repr (pre @ (c, t) # post) flag (PDict l) =
                Inr (Some (dict_set (dataSource t) ''workspacePath''
                       (PStr (b @ [CHR 0x5C] @ tb @ ''.gdb'')))))"
proof -
  have d: "derive_workspace_path repr (dataSource t) tokens =
             Inr (dict_set (dataSource t) ''workspacePath''
                  (PStr (if dataset \<noteq> PNone \<and> schema \<noteq> PNone
                         then format_field repr base @ [CHR 0x5C] @ format_field repr schema
                              @ ''.'' @ format_field repr dataset @ ''.gdb''
                         else if dataset \<noteq> PNone
                         then format_field repr base @ [CHR 0x5C] @ format_field repr dataset
                              @ ''.gdb''
                         else format_field repr base @ [CHR 0x5C] @ format_field repr table
                              @ ''.gdb'')))"
    using assms(7-10) by (simp add: derive_workspace_path_def getitem_def)
  have a: "apply_template tok repr t l = derive_workspace_path repr (dataSource t) tokens"
    using assms(4-6) by (simp add: apply_template_def getitem_def)
  have "template_loop tok repr (pre @ (c, t) # post) l =
          (case apply_template tok repr t l of Inl e \<Rightarrow> Inl e | Inr nc \<Rightarrow> Inr (Some nc))"
    using assms(1,2) by (rule template_loop_first)
  then have g: "match_new_data_source tok repr (pre @ (c, t) # post) flag (PDict l) =
           Inr (Some (dict_set (dataSource t) ''workspacePath''
                  (PStr (if dataset \<noteq> PNone \<and> schema \<noteq> PNone
                         then format_field repr base @ [CHR 0x5C] @ format_field repr schema
                              @ ''.'' @ format_field repr dataset @ ''.gdb''
                         else if dataset \<noteq> PNone
                         then format_field repr base @ [CHR 0x5C] @ format_field repr dataset
                              @ ''.gdb''
                         else format_field repr base @ [CHR 0x5C] @ format_field repr table
                              @ ''.gdb''))))"
    using assms(3) by (simp add: match_new_data_source_def a d)
  show ?thesis
  proof (intro conjI impI)
    show "match_new_data_source tok repr (pre @ (c, t) # post) flag (PDict l) =
           Inr (Some (dict_set (dataSource t) ''workspacePath''
                  (PStr (if dataset \<noteq> PNone \<and> schema \<noteq> PNone
                         then format_field repr base @ [CHR 0x5C] @ format_field repr schema
                              @ ''.'' @ format_field repr dataset @ ''.gdb''
                         else if dataset \<noteq> PNone
                         then format_field repr base @ [CHR 0x5C] @ format_field repr dataset
                              @ ''.gdb''
                         else format_field repr base @ [CHR 0x5C] @ format_field repr table
                              @ ''.gdb''))))"
      by (rule g)
  next
    assume "base = PStr b \<and> schema = PStr sch \<and> dataset = PStr dst"
    then show "match_new_data_source tok repr (pre @ (c, t) # post) flag (PDict l) =
                Inr (Some (dict_set (dataSource t) ''workspacePath''
                       (PStr (b @ [CHR 0x5C] @ sch @ ''.'' @ dst @ ''.gdb''))))"
      using g by (simp add: format_field_def)
  next
    assume "base = PStr b \<and> schema = PNone \<and> dataset = PStr dst"
    then show "match_new_data_source tok repr (pre @ (c, t) # post) flag (PDict l) =
                Inr (Some (dict_set (dataSource t) ''workspacePath''
                       (PStr (b @ [CHR 0x5C] @ dst @ ''.gdb''))))"
      using g by (simp add: format_field_def)
  next
    assume "base = PStr b \<and> dataset = PNone \<and> table = PStr tb"
    then show "match_new_data_source tok repr (pre @ (c, t) # post) flag (PDict l) =
                Inr (Some (dict_set (dataSource t) ''workspacePath''
                       (PStr (b @ [CHR 0x5C] @ tb @ ''.gdb''))))"
      using g by (simp add: format_field_def)
  qed
qed

text \<open>
  The three scenarios of the specification: the base path \<^verbatim>\<open>C:\<close>, backslash, \<^verbatim>\<open>Data\<close>, and
  the tokens \<^verbatim>\<open>dbo\<close>, \<^verbatim>\<open>Roads\<close>, \<^verbatim>\<open>Roads_Lines\<close>; then without the schema; then without the
  schema and the data set.
\<close>

theorem workspace_path_derivation_witness:
  "template_sets [rivers_template, container_template, plain_template] = Inr example_sets
   \<and> match_new_data_source tok_roads no_repr example_sets False (PDict roads_now0) =
       Inr (Some [(''workspacePath'',
                   PStr (''C:'' @ [CHR 0x5C] @ ''Data'' @ [CHR 0x5C] @ ''dbo.Roads.gdb''))])
   \<and> match_new_data_source tok_dataset no_repr example_sets False (PDict roads_now0) =
       Inr (Some [(''workspacePath'',
                   PStr (''C:'' @ [CHR 0x5C] @ ''Data'' @ [CHR 0x5C] @ ''Roads.gdb''))])
   \<and> match_new_data_source tok_table no_repr example_sets False (PDict roads_now0) =
       Inr (Some [(''workspacePath'',
                   PStr (''C:'' @ [CHR 0x5C] @ ''Data'' @ [CHR 0x5C] @ ''Roads_Lines.gdb''))])"
proof -
  let ?ds = "PDict [(''workspacePath'', PStr ''roads.gdb'')]"
  let ?post = "[([(''name'', PStr ''roads'')], plain_template)]"
  have s: "example_sets =
             [([(''name'', PStr ''rivers'')], rivers_template)]
               @ ([(''name'', PStr ''roads'')], container_template) # ?post"
    by (simp add: example_sets_def)
  have ts: "template_sets [rivers_template, container_template, plain_template] = Inr example_sets"
    by code_simp
  have h1: "\<forall>ct\<in>set [([(''name'', PStr ''rivers'')], rivers_template)].
              \<not> issubset (fst ct) (freeze (PDict roads_now0))"
    by code_simp
  have h2: "issubset [(''name'', PStr ''roads'')] (freeze (PDict roads_now0))" by code_simp
  have h3: "\<not> is_skipped_group roads_now0" by code_simp
  have h4: "is_workspace_container container_template" by code_simp
  have h5: "map_of roads_now0 ''dataSource'' = Some ?ds" by code_simp
  have h10: "map_of (dataSource container_template) ''workspacePath'' = Some (PStr data_path)"
    by code_simp
  have copy: "\<And>x. dict_set (dataSource container_template) ''workspacePath'' (PStr x) =
                [(''workspacePath'', PStr x)]"
    by (simp add: container_template_def)
  have dp: "data_path = ''C:'' @ [CHR 0x5C] @ ''Data''" by (simp add: data_path_def)
  have a6: "tok_roads ?ds = Some roads_tokens" by (simp add: tok_roads_def)
  have a7: "map_of roads_tokens ''schema'' = Some (PStr ''dbo'')" by code_simp
  have a8: "map_of roads_tokens ''dataSet'' = Some (PStr ''Roads'')" by code_simp
  have a9: "map_of roads_tokens ''table'' = Some (PStr ''Roads_Lines'')" by code_simp
  have b6: "tok_dataset ?ds = Some dataset_tokens" by (simp add: tok_dataset_def)
  have b7: "map_of dataset_tokens ''schema'' = Some PNone" by code_simp
  have b8: "map_of dataset_tokens ''dataSet'' = Some (PStr ''Roads'')" by code_simp
  have b9: "map_of dataset_tokens ''table'' = Some (PStr ''Roads_Lines'')" by code_simp
  have c6: "tok_table ?ds = Some table_tokens" by (simp add: tok_table_def)
  have c7: "map_of table_tokens ''schema'' = Some PNone" by code_simp
  have c8: "map_of table_tokens ''dataSet'' = Some PNone" by code_simp
  have c9: "map_of table_tokens ''table'' = Some (PStr ''Roads_Lines'')" by code_simp
  have r1: "match_new_data_source tok_roads no_repr example_sets False (PDict roads_now0) =
       Inr (Some [(''workspacePath'',
                   PStr (''C:'' @ [CHR 0x5C] @ ''Data'' @ [CHR 0x5C] @ ''dbo.Roads.gdb''))])"
    using workspace_path_derivation [where tok = tok_roads and repr = no_repr and flag = False
            and post = ?post and b = data_path and sch = "''dbo''" and dst = "''Roads''",
            OF h1 h2 h3 h4 h5 a6 a7 a8 a9 h10]
    by (simp add: s copy dp format_field_def)
  have r2: "match_new_data_source tok_dataset no_repr example_sets False (PDict roads_now0) =
       Inr (Some [(''workspacePath'',
                   PStr (''C:'' @ [CHR 0x5C] @ ''Data'' @ [CHR 0x5C] @ ''Roads.gdb''))])"
    using workspace_path_derivation [where tok = tok_dataset and repr = no_repr and flag = False
            and post = ?post and b = data_path and dst = "''Roads''",
            OF h1 h2 h3 h4 h5 b6 b7 b8 b9 h10]
    by (simp add: s copy dp format_field_def)
  have r3: "match_new_data_source tok_table no_repr example_sets False (PDict roads_now0) =
       Inr (Some [(''workspacePath'',
                   PStr (''C:'' @ [CHR 0x5C] @ ''Data'' @ [CHR 0x5C] @ ''Roads_Lines.gdb''))])"
    using workspace_path_derivation [where tok = tok_table and repr = no_repr and flag = False
            and post = ?post and b = data_path and tb = "''Roads_Lines''",
            OF h1 h2 h3 h4 h5 c6 c7 c8 c9 h10]
    by (simp add: s copy dp format_field_def)
  from ts r1 r2 r3 show ?thesis by simp
qed

text \<open>
  Claim C8 (first-template-wins subset matching), as amended.  Let the layer \<open>l\<close> not be a
  skipped group layer, and let \<open>t\<close> be the first template, in the given order, whose
  criteria set is a subset of the frozen layer.  Then the result is the same as with \<open>t\<close>
  as the only template, whatever templates follow it; it is the data source of \<open>t\<close> when
  \<open>t\<close> is not a workspace container; and in every case the call either raises
  \<^verbatim>\<open>KeyError\<close> or returns a dict that agrees with the data source of \<open>t\<close> on every key
  but \<^verbatim>\<open>workspacePath\<close>.  A layer whose \<^verbatim>\<open>isGroupLayer\<close> is true and whose
  \<^verbatim>\<open>isNetworkAnalystLayer\<close> is not yields \<^verbatim>\<open>None\<close> for every list of templates.
\<close>

theorem first_template_wins:
  "((\<forall>ct\<in>set pre. \<not> issubset (fst ct) (freeze (PDict l)))
      \<and> issubset c (freeze (PDict l)) \<and> \<not> is_skipped_group l
     \<longrightarrow> match_new_data_source tok repr (pre @ (c, t) # post) flag (PDict l) =
           match_new_data_source tok repr [(c, t)] flag (PDict l)
         \<and> (\<not> is_workspace_container t
              \<longrightarrow> match_new_data_source tok repr (pre @ (c, t) # post) flag (PDict l) =
                  Inr (Some (dataSource t)))
         \<and> (match_new_data_source tok repr (pre @ (c, t) # post) flag (PDict l) = Inl KeyError
              \<or> (\<exists>nc. match_new_data_source tok repr (pre @ (c, t) # post) flag (PDict l) =
                         Inr (Some nc)
                       \<and> (\<forall>k. k \<noteq> ''workspacePath''
                              \<longrightarrow> map_of nc k = map_of (dataSource t) k))))
   \<and> (py_eq (dict_get g ''isGroupLayer'') (PBool True)
        \<and> \<not> py_eq (dict_get g ''isNetworkAnalystLayer'') (PBool True)
       \<longrightarrow> match_new_data_source tok repr sets flag (PDict g) = Inr None)"
proof (intro conjI impI)
  assume h: "(\<forall>ct\<in>set pre. \<not> issubset (fst ct) (freeze (PDict l)))
      \<and> issubset c (freeze (PDict l)) \<and> \<not> is_skipped_group l"
  have "template_loop tok repr (pre @ (c, t) # post) l =
          (case apply_template tok repr t l of Inl e \<Rightarrow> Inl e | Inr nc \<Rightarrow> Inr (Some nc))"
    using h by (intro template_loop_first) simp_all
  then have m: "match_new_data_source tok repr (pre @ (c, t) # post) flag (PDict l) =
          (case apply_template tok repr t l of Inl e \<Rightarrow> Inl e | Inr nc \<Rightarrow> Inr (Some nc))"
    using h by (simp add: match_new_data_source_def split: sum.splits)
  have "template_loop tok repr ([] @ (c, t) # []) l =
          (case apply_template tok repr t l of Inl e \<Rightarrow> Inl e | Inr nc \<Rightarrow> Inr (Some nc))"
    using h by (intro template_loop_first) simp_all
  then have "match_new_data_source tok repr [(c, t)] flag (PDict l) =
          (case apply_template tok repr t l of Inl e \<Rightarrow> Inl e | Inr nc \<Rightarrow> Inr (Some nc))"
    using h by (simp add: match_new_data_source_def split: sum.splits)
  with m show "match_new_data_source tok repr (pre @ (c, t) # post) flag (PDict l) =
           match_new_data_source tok repr [(c, t)] flag (PDict l)"
    by simp
  show "match_new_data_source tok repr (pre @ (c, t) # post) flag (PDict l) = Inl KeyError
         \<or> (\<exists>nc. match_new_data_source tok repr (pre @ (c, t) # post) flag (PDict l) =
                    Inr (Some nc)
                  \<and> (\<forall>k. k \<noteq> ''workspacePath''
                         \<longrightarrow> map_of nc k = map_of (dataSource t) k))"
  proof (cases "apply_template tok repr t l")
    case (Inl e)
    then have "e = KeyError" by (rule apply_template_error)
    with Inl m show ?thesis by simp
  next
    case (Inr nc)
    then have "\<forall>k. k \<noteq> ''workspacePath'' \<longrightarrow> map_of nc k = map_of (dataSource t) k"
      by (blast intro: apply_template_copy)
    with Inr m show ?thesis by simp
  qed
  {
    assume "\<not> is_workspace_container t"
    then have "apply_template tok repr t l = Inr (dataSource t)"
      by (simp add: apply_template_def)
    with m show "match_new_data_source tok repr (pre @ (c, t) # post) flag (PDict l) =
                  Inr (Some (dataSource t))"
      by simp
  }
next
  assume "py_eq (dict_get g ''isGroupLayer'') (PBool True)
        \<and> \<not> py_eq (dict_get g ''isNetworkAnalystLayer'') (PBool True)"
  then show "match_new_data_source tok repr sets flag (PDict g) = Inr None"
    by (simp add: match_new_data_source_def is_skipped_group_def)
qed

text \<open>
  The claim as stated says that the copy of the template's data source is returned.  For
  a workspace container the returned dict is not equal to the template's data source:
  its \<^verbatim>\<open>workspacePath\<close> has been overwritten.
\<close>

theorem container_template_rewrites_path:
  "issubset [(''name'', PStr ''roads'')] (freeze (PDict roads_now0))
   \<and> \<not> is_skipped_group roads_now0
   \<and> dataSource container_template = [(''workspacePath'', PStr data_path)]
   \<and> match_new_data_source tok_roads no_repr
         [([(''name'', PStr ''roads'')], container_template)] False (PDict roads_now0) =
       Inr (Some [(''workspacePath'', PStr (data_path @ [CHR 0x5C] @ ''dbo.Roads.gdb''))])"
  by code_simp

text \<open>
  Four templates in the given order: one for another name, one whose two criteria the
  layer meets only in part, the workspace container and the plain template.  The result
  is that of the container alone.  With the plain template before the container it is
  the plain template's data source.  The group layer yields \<^verbatim>\<open>None\<close>, and the
  network-analyst group layer is matched like any layer.
\<close>

theorem first_template_wins_witness:
  "template_sets [rivers_template, strict_template, container_template, plain_template] =
     Inr ranked_sets
   \<and> match_new_data_source tok_roads no_repr ranked_sets True (PDict roads_now0) =
       match_new_data_source tok_roads no_repr
         [([(''name'', PStr ''roads'')], container_template)] True (PDict roads_now0)
   \<and> match_new_data_source tok_roads no_repr ranked_sets True (PDict roads_now0) =
       Inr (Some [(''workspacePath'', PStr (data_path @ [CHR 0x5C] @ ''dbo.Roads.gdb''))])
   \<and> match_new_data_source tok_roads no_repr
       [([(''name'', PStr ''rivers'')], rivers_template),
        ([(''name'', PStr ''roads''), (''serviceid'', PInt 99)], strict_template),
        ([(''name'', PStr ''roads'')], plain_template),
        ([(''name'', PStr ''roads'')], container_template)] True (PDict roads_now0) =
     Inr (Some [(''workspacePath'', PStr ''other.gdb'')])
   \<and> match_new_data_source tok_roads no_repr ranked_sets True (PDict group_layer) = Inr None
   \<and> match_new_data_source tok_roads no_repr
       [([(''name'', PStr ''roads'')], plain_template)] True (PDict network_layer) =
     Inr (Some [(''workspacePath'', PStr ''other.gdb'')])"
proof -
  let ?pre = "[([(''name'', PStr ''rivers'')], rivers_template),
               ([(''name'', PStr ''roads''), (''serviceid'', PInt 99)], strict_template)]"
  let ?c = "[(''name'', PStr ''roads'')]"
  have s: "ranked_sets = ?pre @ (?c, container_template) # [(?c, plain_template)]"
    by (simp add: ranked_sets_def)
  have ts: "template_sets [rivers_template, strict_template, container_template, plain_template] =
              Inr ranked_sets"
    by code_simp
  have h1: "\<forall>ct\<in>set ?pre. \<not> issubset (fst ct) (freeze (PDict roads_now0))"
    by code_simp
  have h2: "issubset ?c (freeze (PDict roads_now0))" by code_simp
  have h3: "\<not> is_skipped_group roads_now0" by code_simp
  have h4: "\<not> is_workspace_container plain_template" by code_simp
  have h5: "py_eq (dict_get group_layer ''isGroupLayer'') (PBool True)
            \<and> \<not> py_eq (dict_get group_layer ''isNetworkAnalystLayer'') (PBool True)"
    by code_simp
  have h6: "\<forall>ct\<in>set []. \<not> issubset (fst ct) (freeze (PDict network_layer))"
    by simp
  have h7: "issubset ?c (freeze (PDict network_layer))" by code_simp
  have h8: "\<not> is_skipped_group network_layer" by code_simp
  have d: "dataSource plain_template = [(''workspacePath'', PStr ''other.gdb'')]"
    by (simp add: plain_template_def)
  have alone: "match_new_data_source tok_roads no_repr [(?c, container_template)] True
                 (PDict roads_now0) =
               Inr (Some [(''workspacePath'', PStr (data_path @ [CHR 0x5C] @ ''dbo.Roads.gdb''))])"
    by code_simp
  have r1: "match_new_data_source tok_roads no_repr
              (?pre @ (?c, container_template) # [(?c, plain_template)]) True (PDict roads_now0) =
            match_new_data_source tok_roads no_repr [(?c, container_template)] True
              (PDict roads_now0)"
    using first_template_wins [where tok = tok_roads and repr = no_repr and flag = True
            and pre = ?pre and c = ?c and t = container_template
            and post = "[(?c, plain_template)]" and l = roads_now0]
      h1 h2 h3 by blast
  have r2: "match_new_data_source tok_roads no_repr
              (?pre @ (?c, plain_template) # [(?c, container_template)]) True (PDict roads_now0) =
            Inr (Some (dataSource plain_template))"
    using first_template_wins [where tok = tok_roads and repr = no_repr and flag = True
            and pre = ?pre and c = ?c and t = plain_template
            and post = "[(?c, container_template)]" and l = roads_now0]
      h1 h2 h3 h4 by blast
  have r3: "match_new_data_source tok_roads no_repr ranked_sets True (PDict group_layer) = Inr None"
    using first_template_wins [where tok = tok_roads and repr = no_repr and flag = True
            and g = group_layer and sets = ranked_sets]
      h5 by blast
  have r4: "match_new_data_source tok_roads no_repr ([] @ (?c, plain_template) # []) True
              (PDict network_layer) =
            Inr (Some (dataSource plain_template))"
    using first_template_wins [where tok = tok_roads and repr = no_repr and flag = True
            and pre = "[]" and c = ?c and t = plain_template and post = "[]"
            and l = network_layer]
      h6 h7 h8 h4 by blast
  from ts r1 r2 r3 r4 alone show ?thesis by (simp add: s d)
qed



text \<open>
  Claim C10 (data source that cannot be tokenised).  Let the template \<open>t\<close> be the first
  whose criteria match the layer, and let it be a workspace container.  When
  \<^verbatim>\<open>tokenise_datasource\<close> returns \<^verbatim>\<open>None\<close> for the layer's data source, the result is the
  copy of the template's data source as it is, \<^verbatim>\<open>workspacePath\<close> included, and nothing is
  raised.
\<close>

theorem unparsed_data_source_keeps_path:
  assumes "\<forall>ct\<in>set pre. \<not> issubset (fst ct) (freeze (PDict l))"
    and "issubset c (freeze (PDict l))"
    and "\<not> is_skipped_group l"
    and "is_workspace_container t"
    and "map_of l ''dataSource'' = Some ds"
    and "tok ds = None"
  shows "match_new_data_source tok repr (pre @ (c, t) # post) flag (PDict l) =
           Inr (Some (dataSource t))"
proof -
  have a: "apply_template tok repr t l = Inr (dataSource t)"
    using assms(4-6) by (simp add: apply_template_def getitem_def)
  have "template_loop tok repr (pre @ (c, t) # post) l =
          (case apply_template tok repr t l of Inl e \<Rightarrow> Inl e | Inr nc \<Rightarrow> Inr (Some nc))"
    using assms(1,2) by (rule template_loop_first)
  then show ?thesis
    using assms(3) by (simp add: match_new_data_source_def a)
qed

theorem unparsed_data_source_keeps_path_witness:
  "is_workspace_container container_template
   \<and> match_new_data_source tok_none no_repr example_sets True (PDict roads_now0) =
       Inr (Some [(''workspacePath'', PStr data_path)])"
proof -
  have s: "example_sets =
             [([(''name'', PStr ''rivers'')], rivers_template)]
               @ ([(''name'', PStr ''roads'')], container_template)
               # [([(''name'', PStr ''roads'')], plain_template)]"
    by (simp add: example_sets_def)
  have h1: "\<forall>ct\<in>set [([(''name'', PStr ''rivers'')], rivers_template)].
              \<not> issubset (fst ct) (freeze (PDict roads_now0))"
    by code_simp
  have h2: "issubset [(''name'', PStr ''roads'')] (freeze (PDict roads_now0))" by code_simp
  have h3: "\<not> is_skipped_group roads_now0" by code_simp
  have h4: "is_workspace_container container_template" by code_simp
  have h5: "map_of roads_now0 ''dataSource'' = Some (PDict [(''workspacePath'', PStr ''roads.gdb'')])"
    by code_simp
  have h6: "tok_none (PDict [(''workspacePath'', PStr ''roads.gdb'')]) = None"
    by (simp add: tok_none_def)
  have d: "dataSource container_template = [(''workspacePath'', PStr data_path)]"
    by (simp add: container_template_def)
  have "match_new_data_source tok_none no_repr example_sets True (PDict roads_now0) =
          Inr (Some [(''workspacePath'', PStr data_path)])"
    using unparsed_data_source_keeps_path [where tok = tok_none and repr = no_repr and flag = True
            and post = "[([(''name'', PStr ''roads'')], plain_template)]",
            OF h1 h2 h3 h4 h5 h6]
    by (simp add: s d)
  with h4 show ?thesis by simp
qed

end
